theory Spec2Isabelle
  imports Main "HOL-Library.Char_ord" "HOL-Library.List_Lexorder" "HOL-Library.Signed_Division"
begin

section \<open>Exceptions, constants and the two value classes\<close>

text \<open>
  The repository holds three copies of the engine: the monolithic \<^verbatim>\<open>BigInt.cpp\<close>, its
  modular successor (the unnamed source file that includes \<^verbatim>\<open>Bigint.hpp\<close>, called
  "the modular file" below) and \<^verbatim>\<open>BigIntv1.cpp\<close>. A definition without suffix embeds the
  code shared by \<^verbatim>\<open>BigInt.cpp\<close> and the modular file; the suffix \<open>_v1\<close> marks the code
  of \<^verbatim>\<open>BigIntv1.cpp\<close>.

  Every exception of the source is a value of \<open>error\<close>; a function that can throw returns
  \<open>error + 'a\<close> with \<open>Inl\<close> for the exception. \<open>invalid_argument\<close> is
  \<^verbatim>\<open>std::invalid_argument\<close>, the others are the classes of \<^verbatim>\<open>exceptions.hpp\<close>; each
  carries the text given to its constructor.
\<close>

datatype error =
    DivisionByZeroException
  | InvalidInputException string
  | OverflowException string
  | invalid_argument string

definition MAX_DIGITS :: nat where
  "MAX_DIGITS = 618"

definition HEX_SIZE :: nat where
  "HEX_SIZE = 64"

definition MAX_HEX_RESULT_SIZE :: nat where
  "MAX_HEX_RESULT_SIZE = 128"

definition KARATSUBA_THRESHOLD :: nat where
  "KARATSUBA_THRESHOLD = 4"

definition HEX_SIZE_v1 :: nat where
  "HEX_SIZE_v1 = 128"

definition KARATSUBA_THRESHOLD_v1 :: nat where
  "KARATSUBA_THRESHOLD_v1 = 8"

text \<open>
  \<^verbatim>\<open>class BigInt { char digits[MAX_DIGITS]; int length; bool isNegative; }\<close>: the decimal
  digits are small numbers (not characters), least significant first. \<open>length\<close> is
  never negative in the source, so it is a \<open>nat\<close> here, named \<open>len\<close>.
  \<^verbatim>\<open>class BigHexInt\<close> has the same fields; its digits are the characters themselves.
\<close>

record BigInt =
  digits :: "int list"
  len :: nat
  isNegative :: bool

record BigHexInt =
  digits :: "char list"
  len :: nat
  isNegative :: bool

section \<open>Decimal values of BigInt.cpp\<close>

text \<open>The default constructor: \<^verbatim>\<open>length(0), isNegative(false)\<close>, all digits 0.\<close>

definition BigInt_new :: BigInt where
  "BigInt_new = \<lparr>BigInt.digits = replicate MAX_DIGITS 0, len = 0, isNegative = False\<rparr>"

definition BigInt_isValidInput :: "string \<Rightarrow> bool" where
  "BigInt_isValidInput str =
     (if str = [] then False
      else if str ! 0 = CHR ''-'' \<and> length str = 1 then False
      else if str ! 0 \<noteq> CHR ''-'' \<and> (str ! 0 < CHR ''0'' \<or> str ! 0 > CHR ''9'') then False
      else list_all (\<lambda>c. \<not> (c < CHR ''0'' \<or> c > CHR ''9'')) (drop 1 str))"

text \<open>
  \<^verbatim>\<open>BigInt::createFromString\<close>. The first loop stores the characters in reverse as
  numbers (\<^verbatim>\<open>str[...] - '0'\<close>), the second clears the rest of the array; the list below
  gives the array after both loops, index by index.
\<close>

definition BigInt_createFromString :: "string \<Rightarrow> error + BigInt" where
  "BigInt_createFromString str =
     (if \<not> BigInt_isValidInput str then Inl (InvalidInputException str)
      else
        let neg = (str ! 0 = CHR ''-'');
            start = (if neg then 1 else 0);
            n = length str - start
        in if n > MAX_DIGITS then Inl (OverflowException ''BigInt creation'')
           else Inr \<lparr>BigInt.digits =
                       map (\<lambda>i. if i < n then int (of_char (str ! (n - 1 - i + start))) - 48 else 0)
                         [0..<MAX_DIGITS],
                     len = n, isNegative = neg\<rparr>)"

text \<open>What \<^verbatim>\<open>std::cout << static_cast<int>(d)\<close> writes for a number \<open>d\<close>.\<close>

fun show_nat :: "nat \<Rightarrow> string" where
  "show_nat n = (if n < 10 then [char_of (48 + n)]
                 else show_nat (n div 10) @ [char_of (48 + n mod 10)])"

definition show_int :: "int \<Rightarrow> string" where
  "show_int k = (if k < 0 then CHR ''-'' # show_nat (nat (- k)) else show_nat (nat k))"

text \<open>\<^verbatim>\<open>BigInt::print\<close>: the text written to the output, without the final newline.\<close>

definition BigInt_print :: "BigInt \<Rightarrow> string" where
  "BigInt_print a =
     (if BigInt.isNegative a then ''-'' else '''') @
     concat (map (\<lambda>i. show_int (BigInt.digits a ! i)) (rev [0..<BigInt.len a]))"

text \<open>
  \<^verbatim>\<open>BigInt::compare\<close> of BigInt.cpp: lengths first, then the digits from index
  \<open>length - 1\<close> down to 0. The signs are not read.
\<close>

fun BigInt_compare_digits :: "int list \<Rightarrow> int list \<Rightarrow> nat \<Rightarrow> int" where
  "BigInt_compare_digits a b 0 = 0"
| "BigInt_compare_digits a b (Suc i) =
     (if a ! i \<noteq> b ! i then (if a ! i > b ! i then 1 else - 1)
      else BigInt_compare_digits a b i)"

definition BigInt_compare :: "BigInt \<Rightarrow> BigInt \<Rightarrow> int" where
  "BigInt_compare a b =
     (if BigInt.len a \<noteq> BigInt.len b then (if BigInt.len a > BigInt.len b then 1 else - 1)
      else BigInt_compare_digits (BigInt.digits a) (BigInt.digits b) (BigInt.len a))"

text \<open>
  The addition loop of \<^verbatim>\<open>BigInt::operator+\<close>:
  \<^verbatim>\<open>for (i = 0; i < result.length || carry; i++)\<close>. C++ division truncates, hence
  \<open>sdiv\<close> and \<open>smod\<close>.
\<close>

function BigInt_add_loop :: "BigInt \<Rightarrow> BigInt \<Rightarrow> nat \<Rightarrow> int \<Rightarrow> BigInt \<Rightarrow> BigInt" where
  "BigInt_add_loop a b i carry r =
     (if i < BigInt.len r \<or> carry \<noteq> 0 then
        let sum = (if i < BigInt.len a then BigInt.digits a ! i else 0) +
                  (if i < BigInt.len b then BigInt.digits b ! i else 0) + carry;
            r1 = r\<lparr>BigInt.digits := (BigInt.digits r)[i := sum smod 10]\<rparr>;
            r2 = (if i \<ge> BigInt.len r1 then r1\<lparr>BigInt.len := BigInt.len r1 + 1\<rparr> else r1)
        in BigInt_add_loop a b (i + 1) (sum sdiv 10) r2
      else r)"
  by pat_completeness auto
termination
proof (relation "measures [\<lambda>(a, b, i, carry, r). max (BigInt.len a) (max (BigInt.len b) (BigInt.len r)) - i,
                           \<lambda>(a, b, i, carry, r). nat \<bar>carry\<bar>]", goal_cases)
  case 1
  show ?case by simp
next
  case (2 a b i carry r sum r1 r2)
  have sd: "\<bar>c sdiv 10\<bar> < \<bar>c\<bar>" if "c \<noteq> 0" for c :: int
    using that by (simp add: signed_divide_int_def abs_mult abs_sgn_eq)
  show ?case
  proof (cases "i < max (BigInt.len a) (max (BigInt.len b) (BigInt.len r))")
    case True
    with 2 show ?thesis by (auto simp: max_def split: if_splits)
  next
    case False
    with 2 have c: "carry \<noteq> 0" and s: "sum = carry" by auto
    from False 2 sd[OF c] s show ?thesis by (auto simp: max_def split: if_splits)
  qed
qed

text \<open>The borrow loop and the length adjustment of \<^verbatim>\<open>BigInt::operator-\<close>.\<close>

definition BigInt_sub_loop :: "BigInt \<Rightarrow> BigInt \<Rightarrow> nat \<Rightarrow> int list \<Rightarrow> int list \<times> int" where
  "BigInt_sub_loop a b n ds =
     foldl (\<lambda>(ds, borrow) i.
              let diff = BigInt.digits a ! i - (if i < BigInt.len b then BigInt.digits b ! i else 0) - borrow
              in if diff < 0 then (ds[i := diff + 10], 1) else (ds[i := diff], 0))
       (ds, 0) [0..<n]"

fun BigInt_trim :: "int list \<Rightarrow> nat \<Rightarrow> nat" where
  "BigInt_trim ds 0 = 0"
| "BigInt_trim ds (Suc n) = (if Suc n > 1 \<and> ds ! n = 0 then BigInt_trim ds n else Suc n)"

lemma BigInt_compare_digits_swap:
  "BigInt_compare_digits a b n < 0 \<Longrightarrow> \<not> BigInt_compare_digits b a n < 0"
  by (induction n) (auto split: if_splits)

lemma BigInt_compare_swap: "BigInt_compare a b < 0 \<Longrightarrow> \<not> BigInt_compare b a < 0"
  by (auto simp: BigInt_compare_def BigInt_compare_digits_swap split: if_splits)

text \<open>
  \<^verbatim>\<open>BigInt::operator+\<close> and \<^verbatim>\<open>BigInt::operator-\<close> of BigInt.cpp call each other: an
  addition of operands of different signs is a subtraction of magnitudes, a subtraction
  of operands of different signs is an addition.
\<close>

function BigInt_plus :: "BigInt \<Rightarrow> BigInt \<Rightarrow> error + BigInt"
  and BigInt_minus :: "BigInt \<Rightarrow> BigInt \<Rightarrow> error + BigInt" where
  "BigInt_plus a b =
     (if BigInt.isNegative a = BigInt.isNegative b then
        let r0 = BigInt_new\<lparr>BigInt.len := max (BigInt.len a) (BigInt.len b),
                            BigInt.isNegative := BigInt.isNegative a\<rparr>
        in if BigInt.len r0 \<ge> MAX_DIGITS - 1 then Inl (OverflowException ''addition'')
           else Inr (BigInt_add_loop a b 0 0 r0)
      else if BigInt.isNegative a then BigInt_minus b (a\<lparr>BigInt.isNegative := False\<rparr>)
      else BigInt_minus a (b\<lparr>BigInt.isNegative := False\<rparr>))"
| "BigInt_minus a b =
     (if BigInt.isNegative a \<noteq> BigInt.isNegative b then
        BigInt_plus a (b\<lparr>BigInt.isNegative := \<not> BigInt.isNegative b\<rparr>)
      else if BigInt_compare a b < 0 then
        (case BigInt_minus b a of
           Inl e \<Rightarrow> Inl e
         | Inr result \<Rightarrow> Inr (result\<lparr>BigInt.isNegative := \<not> BigInt.isNegative a\<rparr>))
      else
        let ds = fst (BigInt_sub_loop a b (BigInt.len a) (BigInt.digits BigInt_new))
        in Inr \<lparr>BigInt.digits = ds, len = BigInt_trim ds (BigInt.len a),
                isNegative = BigInt.isNegative a\<rparr>)"
  by pat_completeness auto
termination
proof (relation "measure (\<lambda>x. case x of
          Inl (a, b) \<Rightarrow> (if BigInt.isNegative a \<noteq> BigInt.isNegative b then 3 else 0)
        | Inr (a, b) \<Rightarrow> (if BigInt.isNegative a \<noteq> BigInt.isNegative b then 1
                         else if BigInt_compare a b < 0 then 2 else 1))", goal_cases)
  case 1
  show ?case by simp
next
  case (2 a b)
  then show ?case by auto
next
  case (3 a b)
  then show ?case by auto
next
  case (4 a b)
  then show ?case by auto
next
  case (5 a b)
  then show ?case by (auto dest: BigInt_compare_swap)
qed

section \<open>Hexadecimal values of BigInt.cpp and of the modular file\<close>

text \<open>
  The array \<^verbatim>\<open>char digits[MAX_HEX_RESULT_SIZE]\<close> is a list of 128 characters. A loop that
  visits the cells \<open>0, 1, 2, ...\<close> of one or two arrays in step is a recursion over the
  lists of these cells; a loop that scans down from the top cell is a recursion over the
  number of cells left. \<^verbatim>\<open>HEX_DIGIT_STR[k]\<close> is \<open>hexDigitAt k\<close>.
\<close>

definition HEX_DIGIT_STR :: string where
  "HEX_DIGIT_STR = ''0123456789abcdef''"

definition hexDigitAt :: "int \<Rightarrow> char" where
  "hexDigitAt k = HEX_DIGIT_STR ! nat k"

definition convertHexDigitToInt :: "char \<Rightarrow> int" where
  "convertHexDigitToInt c =
     (if c \<ge> CHR ''0'' \<and> c \<le> CHR ''9'' then int (of_char c) - 48
      else if c \<ge> CHR ''a'' \<and> c \<le> CHR ''f'' then int (of_char c) - 97 + 10
      else if c \<ge> CHR ''A'' \<and> c \<le> CHR ''F'' then int (of_char c) - 65 + 10
      else - 1)"

definition convertIntToHexChar :: "int \<Rightarrow> error + char" where
  "convertIntToHexChar n =
     (if n \<ge> 0 \<and> n \<le> 9 then Inr (char_of (48 + n))
      else if n \<ge> 10 \<and> n < 16 then Inr (char_of (97 + (n - 10)))
      else Inl (InvalidInputException (''Invalid isHex digit value: '' @ show_int n)))"

text \<open>The default constructor: \<^verbatim>\<open>length(1), isNegative(false)\<close>, all digits \<^verbatim>\<open>'0'\<close>.\<close>

definition BigHexInt_new :: BigHexInt where
  "BigHexInt_new = \<lparr>digits = replicate MAX_HEX_RESULT_SIZE (CHR ''0''), len = 1, isNegative = False\<rparr>"

definition isHexChar :: "char \<Rightarrow> bool" where
  "isHexChar c = ((c \<ge> CHR ''0'' \<and> c \<le> CHR ''9'') \<or> (c \<ge> CHR ''a'' \<and> c \<le> CHR ''f'') \<or>
                  (c \<ge> CHR ''A'' \<and> c \<le> CHR ''F''))"

definition BigHexInt_isValidInput :: "string \<Rightarrow> bool" where
  "BigHexInt_isValidInput str =
     (if str = [] then False
      else let start = (if str ! 0 = CHR ''-'' then 1 else 0)
           in if start = 1 \<and> length str = 1 then False
              else list_all isHexChar (drop start str))"

text \<open>
  \<^verbatim>\<open>while (n > 1 && digits[n-1] == '0') n--;\<close>, the loop that ends
  \<^verbatim>\<open>createFromString\<close>, both operators, \<^verbatim>\<open>multiplyNaive\<close> and \<^verbatim>\<open>karatsuba\<close>, and
  (with \<open>msb = n - 1\<close>) starts \<^verbatim>\<open>toString\<close>.
\<close>

fun hex_trim :: "char list \<Rightarrow> nat \<Rightarrow> nat" where
  "hex_trim ds 0 = 0"
| "hex_trim ds (Suc n) = (if Suc n > 1 \<and> ds ! n = CHR ''0'' then hex_trim ds n else Suc n)"

definition BigHexInt_createFromString :: "string \<Rightarrow> error + BigHexInt" where
  "BigHexInt_createFromString str =
     (if \<not> BigHexInt_isValidInput str then Inl (InvalidInputException str)
      else
        let neg = (str ! 0 = CHR ''-'');
            start = (if neg then 1 else 0);
            inputLength = length str - start
        in if inputLength > HEX_SIZE
           then Inl (OverflowException
                  (''BigHexInt creation - exceeds '' @ show_nat HEX_SIZE @ '' isHex digits''))
           else
             let ds = rev (drop start str) @ replicate (MAX_HEX_RESULT_SIZE - inputLength) (CHR ''0'')
             in Inr \<lparr>digits = ds, len = hex_trim ds HEX_SIZE, isNegative = neg\<rparr>)"

definition BigHexInt_toString :: "BigHexInt \<Rightarrow> string" where
  "BigHexInt_toString a =
     (if isNegative a then [CHR ''-''] else []) @
     rev (take (hex_trim (digits a) (len a)) (digits a))"

text \<open>
  The scan of \<^verbatim>\<open>BigHexInt::compare\<close> from cell \<open>n - 1\<close> down to cell 0; \<open>neg\<close> is
  \<open>isNegative\<close> of the left operand. \<^verbatim>\<open>operator-\<close> has the same scan without the sign
  (\<open>neg = False\<close>).
\<close>

fun BigHexInt_compare_loop :: "bool \<Rightarrow> char list \<Rightarrow> char list \<Rightarrow> nat \<Rightarrow> int" where
  "BigHexInt_compare_loop neg a b 0 = 0"
| "BigHexInt_compare_loop neg a b (Suc i) =
     (let digitA = convertHexDigitToInt (a ! i); digitB = convertHexDigitToInt (b ! i)
      in if digitA \<noteq> digitB then
           (if neg then (if digitA > digitB then - 1 else 1)
            else (if digitA > digitB then 1 else - 1))
         else BigHexInt_compare_loop neg a b i)"

definition BigHexInt_compare :: "BigHexInt \<Rightarrow> BigHexInt \<Rightarrow> int" where
  "BigHexInt_compare a b =
     (if isNegative a \<and> \<not> isNegative b then - 1
      else if \<not> isNegative a \<and> isNegative b then 1
      else BigHexInt_compare_loop (isNegative a) (digits a) (digits b) HEX_SIZE)"

fun hex_add_digits :: "char list \<Rightarrow> char list \<Rightarrow> int \<Rightarrow> char list \<times> int" where
  "hex_add_digits (x # xs) (y # ys) carry =
     (let sum = convertHexDigitToInt x + convertHexDigitToInt y + carry;
          rest = hex_add_digits xs ys (sum sdiv 16)
      in (hexDigitAt (sum smod 16) # fst rest, snd rest))"
| "hex_add_digits xs ys carry = ([], carry)"

fun hex_sub_digits :: "char list \<Rightarrow> char list \<Rightarrow> int \<Rightarrow> char list" where
  "hex_sub_digits (x # xs) (y # ys) borrow =
     (let diff = convertHexDigitToInt x - convertHexDigitToInt y - borrow
      in if diff < 0 then hexDigitAt (diff + 16) # hex_sub_digits xs ys 1
         else hexDigitAt diff # hex_sub_digits xs ys 0)"
| "hex_sub_digits xs ys borrow = []"

text \<open>
  \<^verbatim>\<open>BigHexInt::operator+\<close> and \<^verbatim>\<open>BigHexInt::operator-\<close>. Both work on the cells
  \<open>0 .. HEX_SIZE - 1\<close> whatever \<open>length\<close> says, and neither throws.
\<close>

function BigHexInt_plus :: "BigHexInt \<Rightarrow> BigHexInt \<Rightarrow> BigHexInt"
  and BigHexInt_minus :: "BigHexInt \<Rightarrow> BigHexInt \<Rightarrow> BigHexInt" where
  "BigHexInt_plus a b =
     (if isNegative a \<noteq> isNegative b then
        (if isNegative a then BigHexInt_minus b (a\<lparr>isNegative := False\<rparr>)
         else BigHexInt_minus a (b\<lparr>isNegative := False\<rparr>))
      else
        let sums = hex_add_digits (take HEX_SIZE (digits a)) (take HEX_SIZE (digits b)) 0;
            carry = snd sums;
            ds = fst sums @ replicate (MAX_HEX_RESULT_SIZE - HEX_SIZE) (CHR ''0'');
            grow = (carry > 0 \<and> HEX_SIZE < MAX_HEX_RESULT_SIZE);
            ds' = (if grow then ds[HEX_SIZE := hexDigitAt carry] else ds);
            actualLength = (if grow then HEX_SIZE + 1 else HEX_SIZE)
        in \<lparr>digits = ds', len = hex_trim ds' actualLength, isNegative = isNegative a\<rparr>)"
| "BigHexInt_minus a b =
     (if isNegative a \<noteq> isNegative b then
        BigHexInt_plus a (b\<lparr>isNegative := \<not> isNegative b\<rparr>)
      else
        let cmp = BigHexInt_compare_loop False (digits a) (digits b) HEX_SIZE;
            larger = (if cmp \<ge> 0 then a else b);
            smaller = (if cmp \<ge> 0 then b else a);
            ds = hex_sub_digits (take HEX_SIZE (digits larger)) (take HEX_SIZE (digits smaller)) 0
                 @ replicate (MAX_HEX_RESULT_SIZE - HEX_SIZE) (CHR ''0'')
        in \<lparr>digits = ds, len = hex_trim ds HEX_SIZE,
            isNegative = (if cmp \<ge> 0 then isNegative a else \<not> isNegative a)\<rparr>)"
  by pat_completeness auto
termination
  by (relation "measure (\<lambda>x. case x of
          Inl (a, b) \<Rightarrow> (if isNegative a \<noteq> isNegative b then 1 else 0)
        | Inr (a, b) \<Rightarrow> (if isNegative a \<noteq> isNegative b then 1 else 0))") auto

definition BigHexInt_isZero :: "BigHexInt \<Rightarrow> bool" where
  "BigHexInt_isZero a = list_all (\<lambda>c. c = CHR ''0'') (take (len a) (digits a))"

definition BigHexInt_isOne :: "BigHexInt \<Rightarrow> bool" where
  "BigHexInt_isOne a =
     (if len a < 1 then False
      else if digits a ! 0 \<noteq> CHR ''1'' then False
      else list_all (\<lambda>c. c = CHR ''0'') (drop 1 (take (len a) (digits a))))"

text \<open>The helpers of the Karatsuba routine.\<close>

definition BigHexInt_clone :: "BigHexInt \<Rightarrow> BigHexInt" where
  "BigHexInt_clone a =
     \<lparr>digits = take (len a) (digits a) @ replicate (MAX_HEX_RESULT_SIZE - len a) (CHR ''0''),
      len = len a, isNegative = isNegative a\<rparr>"

text \<open>
  \<^verbatim>\<open>shiftLeftInPlace\<close>: past the guard every cell \<open>i + n\<close> is below \<open>HEX_SIZE\<close>, so the
  copy loop moves the \<open>length\<close> low cells up by \<open>n\<close> and the second loop clears the
  \<open>n\<close> low cells.
\<close>

definition BigHexInt_shiftLeftInPlace :: "BigHexInt \<Rightarrow> nat \<Rightarrow> error + BigHexInt" where
  "BigHexInt_shiftLeftInPlace a n =
     (if len a + n > HEX_SIZE then Inl (OverflowException ''shift left operation'')
      else Inr (a\<lparr>digits := replicate n (CHR ''0'') @ take (len a) (digits a) @
                              drop (len a + n) (digits a),
                   len := (if len a + n > HEX_SIZE then HEX_SIZE else len a + n)\<rparr>))"

definition BigHexInt_shiftLeft :: "BigHexInt \<Rightarrow> nat \<Rightarrow> error + BigHexInt" where
  "BigHexInt_shiftLeft a n = BigHexInt_shiftLeftInPlace (BigHexInt_clone a) n"

definition BigHexInt_getLower :: "BigHexInt \<Rightarrow> nat \<Rightarrow> BigHexInt" where
  "BigHexInt_getLower a n =
     (let actual = min (len a) n
      in \<lparr>digits = take actual (digits a) @ replicate (MAX_HEX_RESULT_SIZE - actual) (CHR ''0''),
          len = (if actual = 0 then 1 else actual), isNegative = False\<rparr>)"

definition BigHexInt_getHigher :: "BigHexInt \<Rightarrow> nat \<Rightarrow> BigHexInt" where
  "BigHexInt_getHigher a n =
     (if len a \<le> n
      then \<lparr>digits = replicate MAX_HEX_RESULT_SIZE (CHR ''0''), len = 1, isNegative = False\<rparr>
      else
        let newLength = len a - n
        in \<lparr>digits = take newLength (drop n (digits a)) @
                      replicate (MAX_HEX_RESULT_SIZE - newLength) (CHR ''0''),
            len = newLength, isNegative = False\<rparr>)"

definition BigHexInt_pad :: "BigHexInt \<Rightarrow> nat \<Rightarrow> BigHexInt" where
  "BigHexInt_pad a targetLen =
     (let res = BigHexInt_clone a
      in if len res < targetLen
         then res\<lparr>digits := take (len res) (digits res) @
                              replicate (targetLen - len res) (CHR ''0'') @
                              drop targetLen (digits res),
                  len := targetLen\<rparr>
         else res)"

text \<open>
  \<^verbatim>\<open>multiplyNaive\<close>. \<open>hex_mul_row\<close> is the inner loop
  \<^verbatim>\<open>for (j = 0; j < other.length || carry; j++)\<close> for one digit of the left operand: its
  last argument holds the result's cells from \<open>i + j\<close> on, \<open>bs\<close> the digits of the right
  operand from \<open>j\<close> on. \<open>hex_mul_rows\<close> is the outer loop: its last argument holds the
  result's cells from \<open>i\<close> on. The source has no bound on \<open>i + j\<close>; the model stops at the
  end of the array.
\<close>

fun hex_mul_row :: "int \<Rightarrow> char list \<Rightarrow> int \<Rightarrow> char list \<Rightarrow> char list" where
  "hex_mul_row a_digit bs carry [] = []"
| "hex_mul_row a_digit (b # bs) carry (r # rs) =
     (let prod = convertHexDigitToInt r + a_digit * convertHexDigitToInt b + carry
      in hexDigitAt (prod smod 16) # hex_mul_row a_digit bs (prod sdiv 16) rs)"
| "hex_mul_row a_digit [] carry (r # rs) =
     (if carry \<noteq> 0 then
        let prod = convertHexDigitToInt r + a_digit * 0 + carry
        in hexDigitAt (prod smod 16) # hex_mul_row a_digit [] (prod sdiv 16) rs
      else r # rs)"

fun hex_mul_rows :: "char list \<Rightarrow> char list \<Rightarrow> char list \<Rightarrow> char list" where
  "hex_mul_rows [] bs rs = rs"
| "hex_mul_rows (a # as) bs rs =
     (case hex_mul_row (convertHexDigitToInt a) bs 0 rs of
        [] \<Rightarrow> []
      | r # rs' \<Rightarrow> r # hex_mul_rows as bs rs')"

definition BigHexInt_multiplyNaive :: "BigHexInt \<Rightarrow> BigHexInt \<Rightarrow> error + BigHexInt" where
  "BigHexInt_multiplyNaive a b =
     (let resultLength = len a + len b
      in if resultLength \<ge> MAX_HEX_RESULT_SIZE then Inl (OverflowException ''naive multiplication'')
         else
           let ds = hex_mul_rows (take (len a) (digits a)) (take (len b) (digits b))
                      (replicate MAX_HEX_RESULT_SIZE (CHR ''0''))
           in Inr \<lparr>digits = ds, len = hex_trim ds resultLength,
                   isNegative = (isNegative a \<noteq> isNegative b)\<rparr>)"

text \<open>
  The global \<^verbatim>\<open>std::map<std::pair<std::string, std::string>, std::string> karatsubaMemo\<close>
  is passed in and handed back. A function that reads or writes it returns the pair of
  its outcome (a value or an exception) and the map it leaves behind; \<open>None\<close> stands for
  a call that does not return.
\<close>

type_synonym karatsubaMemo = "string \<times> string \<Rightarrow> string option"

definition karatsuba_key :: "BigHexInt \<Rightarrow> BigHexInt \<Rightarrow> string \<times> string" where
  "karatsuba_key a b =
     (let thisStr = BigHexInt_toString a; otherStr = BigHexInt_toString b
      in if thisStr > otherStr then (otherStr, thisStr) else (thisStr, otherStr))"

partial_function (option) BigHexInt_karatsuba ::
  "karatsubaMemo \<Rightarrow> BigHexInt \<Rightarrow> BigHexInt \<Rightarrow> ((error + BigHexInt) \<times> karatsubaMemo) option" where
  "BigHexInt_karatsuba memo a b =
     (let key = karatsuba_key a b in
      case memo key of
        Some s \<Rightarrow> Some (BigHexInt_createFromString s, memo)
      | None \<Rightarrow>
          if (len a = 1 \<and> digits a ! 0 = CHR ''0'') \<or> (len b = 1 \<and> digits b ! 0 = CHR ''0'') then
            Some (Inr BigHexInt_new, memo(key \<mapsto> BigHexInt_toString BigHexInt_new))
          else if len a \<le> KARATSUBA_THRESHOLD \<or> len b \<le> KARATSUBA_THRESHOLD then
            (case BigHexInt_multiplyNaive a b of
               Inl e \<Rightarrow> Some (Inl e, memo)
             | Inr result \<Rightarrow> Some (Inr result, memo(key \<mapsto> BigHexInt_toString result)))
          else
            let n = max (len a) (len b);
                x = BigHexInt_pad a n;
                y = BigHexInt_pad b n;
                m = n div 2;
                low1 = BigHexInt_getLower x m;
                high1 = BigHexInt_getHigher x m;
                low2 = BigHexInt_getLower y m;
                high2 = BigHexInt_getHigher y m
            in Option.bind (BigHexInt_karatsuba memo low1 low2) (\<lambda>(r0, memo0).
                 case r0 of
                   Inl e \<Rightarrow> Some (Inl e, memo0)
                 | Inr z0 \<Rightarrow>
                     Option.bind (BigHexInt_karatsuba memo0 high1 high2) (\<lambda>(r2, memo2).
                       case r2 of
                         Inl e \<Rightarrow> Some (Inl e, memo2)
                       | Inr z2 \<Rightarrow>
                           Option.bind (BigHexInt_karatsuba memo2 (BigHexInt_plus low1 high1)
                                          (BigHexInt_plus low2 high2)) (\<lambda>(r1, memo1).
                             case r1 of
                               Inl e \<Rightarrow> Some (Inl e, memo1)
                             | Inr z1 \<Rightarrow>
                                 (case BigHexInt_shiftLeft z2 (2 * m) of
                                    Inl e \<Rightarrow> Some (Inl e, memo1)
                                  | Inr part1 \<Rightarrow>
                                      (case BigHexInt_shiftLeft
                                              (BigHexInt_minus (BigHexInt_minus z1 z2) z0) m of
                                         Inl e \<Rightarrow> Some (Inl e, memo1)
                                       | Inr part2 \<Rightarrow>
                                           let temp = BigHexInt_plus part1 part2;
                                               sum = BigHexInt_plus temp z0;
                                               result = sum\<lparr>len := hex_trim (digits sum) (len sum)\<rparr>
                                           in Some (Inr result,
                                                    memo1(key \<mapsto> BigHexInt_toString result))))))))"

declare BigHexInt_karatsuba.simps [code]

text \<open>
  \<^verbatim>\<open>BigHexInt::operator*\<close>: BigInt.cpp chooses between the two routines by the sum of the
  lengths (\<open>_cpp\<close>); the modular file always calls \<^verbatim>\<open>karatsuba\<close> (\<open>_mod\<close>). Both set the
  sign afterwards.
\<close>

definition BigHexInt_times_cpp ::
  "karatsubaMemo \<Rightarrow> BigHexInt \<Rightarrow> BigHexInt \<Rightarrow> ((error + BigHexInt) \<times> karatsubaMemo) option" where
  "BigHexInt_times_cpp memo a b =
     (if len a + len b > 8 then
        Option.bind (BigHexInt_karatsuba memo a b) (\<lambda>(r, memo').
          case r of
            Inl e \<Rightarrow> Some (Inl e, memo')
          | Inr result \<Rightarrow> Some (Inr (result\<lparr>isNegative := (isNegative a \<noteq> isNegative b)\<rparr>), memo'))
      else
        (case BigHexInt_multiplyNaive a b of
           Inl e \<Rightarrow> Some (Inl e, memo)
         | Inr result \<Rightarrow> Some (Inr (result\<lparr>isNegative := (isNegative a \<noteq> isNegative b)\<rparr>), memo)))"

definition BigHexInt_times_mod ::
  "karatsubaMemo \<Rightarrow> BigHexInt \<Rightarrow> BigHexInt \<Rightarrow> ((error + BigHexInt) \<times> karatsubaMemo) option" where
  "BigHexInt_times_mod memo a b =
     Option.bind (BigHexInt_karatsuba memo a b) (\<lambda>(r, memo').
       case r of
         Inl e \<Rightarrow> Some (Inl e, memo')
       | Inr result \<Rightarrow> Some (Inr (result\<lparr>isNegative := (isNegative a \<noteq> isNegative b)\<rparr>), memo'))"

subsection \<open>Division\<close>

text \<open>
  \<^verbatim>\<open>BigHexInt::divide(const BigHexInt& divisor, BigHexInt* remainder)\<close> returns the
  quotient and may write through \<open>remainder\<close>. The pointer is an option (\<open>None\<close> for
  \<^verbatim>\<open>nullptr\<close>, \<open>Some r\<close> for a pointer to an object that holds \<open>r\<close>); the function
  returns the quotient and what the pointer leads to afterwards.

  BigInt.cpp has the unfinished routine (\<open>_cpp\<close>): past its two special cases it
  returns the quotient it started with and leaves the remainder untouched.
\<close>

definition BigHexInt_divide_cpp ::
  "BigHexInt \<Rightarrow> BigHexInt \<Rightarrow> BigHexInt option \<Rightarrow> error + BigHexInt \<times> BigHexInt option" where
  "BigHexInt_divide_cpp a divisor remainder =
     (if BigHexInt_isZero divisor then Inl DivisionByZeroException
      else
        let quotient = \<lparr>digits = replicate MAX_HEX_RESULT_SIZE (CHR ''0''), len = 1,
                          isNegative = (isNegative a \<noteq> isNegative divisor)\<rparr>;
            cmp = BigHexInt_compare a divisor
        in if cmp = 0 then
             Inr (quotient\<lparr>digits := (digits quotient)[0 := CHR ''1'']\<rparr>,
                  map_option (\<lambda>r. r\<lparr>digits := replicate MAX_HEX_RESULT_SIZE (CHR ''0''),
                                       len := 1, isNegative := False\<rparr>) remainder)
           else if (cmp < 0 \<and> \<not> isNegative a \<and> \<not> isNegative divisor) \<or>
                   (cmp > 0 \<and> isNegative a \<and> isNegative divisor) then
             Inr (quotient\<lparr>digits := (digits quotient)[0 := CHR ''0'']\<rparr>,
                  map_option (\<lambda>r. a) remainder)
           else Inr (quotient, remainder))"

definition BigHexInt_div_cpp :: "BigHexInt \<Rightarrow> BigHexInt \<Rightarrow> error + BigHexInt" where
  "BigHexInt_div_cpp a b = map_sum id fst (BigHexInt_divide_cpp a b None)"

definition BigHexInt_rem_cpp :: "BigHexInt \<Rightarrow> BigHexInt \<Rightarrow> error + BigHexInt" where
  "BigHexInt_rem_cpp a b =
     (case BigHexInt_divide_cpp a b (Some BigHexInt_new) of
        Inl e \<Rightarrow> Inl e
      | Inr (q, r) \<Rightarrow> Inr (the r))"

text \<open>
  The modular file has the long division (\<open>_mod\<close>). \<open>divide_subtract_loop\<close> is
  \<^verbatim>\<open>while (currentDividend.compare(divisorAbs) >= 0) { currentDividend = currentDividend - divisorAbs; count++; }\<close>;
  it need not end, so it returns an option. \<open>divide_digits_loop\<close> is the loop over the
  dividend's digits, most significant first: it carries \<open>currentDividend\<close>, the
  quotient's array and \<open>quotientPos\<close>.
\<close>

partial_function (option) divide_subtract_loop ::
  "BigHexInt \<Rightarrow> BigHexInt \<Rightarrow> int \<Rightarrow> (BigHexInt \<times> int) option" where
  "divide_subtract_loop currentDividend divisorAbs count =
     (if BigHexInt_compare currentDividend divisorAbs \<ge> 0
      then divide_subtract_loop (BigHexInt_minus currentDividend divisorAbs) divisorAbs (count + 1)
      else Some (currentDividend, count))"

declare divide_subtract_loop.simps [code]

fun divide_digits_loop ::
  "char list \<Rightarrow> BigHexInt \<Rightarrow> BigHexInt \<Rightarrow> char list \<Rightarrow> nat \<Rightarrow>
   (error + BigHexInt \<times> char list \<times> nat) option" where
  "divide_digits_loop [] divisorAbs currentDividend qdigits quotientPos =
     Some (Inr (currentDividend, qdigits, quotientPos))"
| "divide_digits_loop (d # ds) divisorAbs currentDividend qdigits quotientPos =
     (let shifted =
            (if \<not> BigHexInt_isZero currentDividend
             then currentDividend
                    \<lparr>digits := d # take (len currentDividend) (digits currentDividend) @
                                drop (len currentDividend + 1) (digits currentDividend),
                     len := len currentDividend + 1\<rparr>
             else currentDividend\<lparr>digits := (digits currentDividend)[0 := d], len := 1\<rparr>)
      in Option.bind (divide_subtract_loop shifted divisorAbs 0) (\<lambda>(cur, count).
           if count > 0 \<or> quotientPos > 0 then
             (case convertIntToHexChar count of
                Inl e \<Rightarrow> Some (Inl e)
              | Inr c \<Rightarrow> divide_digits_loop ds divisorAbs cur (qdigits[quotientPos := c])
                           (quotientPos + 1))
           else divide_digits_loop ds divisorAbs cur qdigits quotientPos))"

definition BigHexInt_divide_mod ::
  "BigHexInt \<Rightarrow> BigHexInt \<Rightarrow> BigHexInt option \<Rightarrow> (error + BigHexInt \<times> BigHexInt option) option" where
  "BigHexInt_divide_mod a divisor remainder =
     (if BigHexInt_isZero divisor then Some (Inl DivisionByZeroException)
      else if BigHexInt_isZero a then Some (Inr (BigHexInt_new, map_option (\<lambda>r. BigHexInt_new) remainder))
      else
        let dividend = a\<lparr>isNegative := False\<rparr>;
            divisorAbs = divisor\<lparr>isNegative := False\<rparr>;
            quotient = \<lparr>digits = replicate MAX_HEX_RESULT_SIZE (CHR ''0''), len = 1,
                          isNegative = (isNegative a \<noteq> isNegative divisor)\<rparr>;
            cmp = BigHexInt_compare dividend divisorAbs
        in if cmp = 0 then
             Some (Inr (quotient\<lparr>digits := (digits quotient)[0 := CHR ''1''], len := 1\<rparr>,
                        map_option (\<lambda>r. r\<lparr>digits := replicate MAX_HEX_RESULT_SIZE (CHR ''0''),
                                             len := 1, isNegative := False\<rparr>) remainder))
           else if cmp < 0 then
             Some (Inr (quotient\<lparr>digits := (digits quotient)[0 := CHR ''0''], len := 1,
                                 isNegative := False\<rparr>,
                        map_option (\<lambda>r. a) remainder))
           else
             Option.bind
               (divide_digits_loop (rev (take (len dividend) (digits dividend))) divisorAbs
                  \<lparr>digits = replicate MAX_HEX_RESULT_SIZE (CHR ''0''), len = 1, isNegative = False\<rparr>
                  (replicate MAX_HEX_RESULT_SIZE (CHR ''0'')) 0)
               (\<lambda>r. case r of
                  Inl e \<Rightarrow> Some (Inl e)
                | Inr (currentDividend, qdigits, quotientPos) \<Rightarrow>
                    let q = (if quotientPos = 0
                             then quotient\<lparr>digits := qdigits[0 := CHR ''0''], len := 1,
                                           isNegative := False\<rparr>
                             else quotient\<lparr>digits := rev (take quotientPos qdigits) @
                                                        drop quotientPos qdigits,
                                           len := quotientPos\<rparr>)
                    in Some (Inr (q, map_option
                                      (\<lambda>r. currentDividend
                                              \<lparr>isNegative := (isNegative a \<and>
                                                               \<not> BigHexInt_isZero currentDividend)\<rparr>)
                                      remainder))))"

definition BigHexInt_div_mod :: "BigHexInt \<Rightarrow> BigHexInt \<Rightarrow> (error + BigHexInt) option" where
  "BigHexInt_div_mod a b = map_option (map_sum id fst) (BigHexInt_divide_mod a b None)"

definition BigHexInt_rem_mod :: "BigHexInt \<Rightarrow> BigHexInt \<Rightarrow> (error + BigHexInt) option" where
  "BigHexInt_rem_mod a b =
     map_option (\<lambda>r. case r of Inl e \<Rightarrow> Inl e | Inr (q, r) \<Rightarrow> Inr (the r))
       (BigHexInt_divide_mod a b (Some BigHexInt_new))"

subsection \<open>Modular exponentiation of the modular file\<close>

definition BigHexInt_isOdd :: "BigHexInt \<Rightarrow> bool" where
  "BigHexInt_isOdd a =
     (if len a = 0 then False else convertHexDigitToInt (digits a ! 0) mod 2 = 1)"

text \<open>
  \<^verbatim>\<open>divideByTwo\<close>: the loop runs over the digits from the most significant one, carries
  the bit that falls out of each digit, and writes the digits of the half from cell 0
  upwards; the half is reversed at the end.
\<close>

fun divideByTwo_loop :: "char list \<Rightarrow> int \<Rightarrow> char list \<Rightarrow> nat \<Rightarrow> error + char list \<times> nat" where
  "divideByTwo_loop [] carry rdigits resultLength = Inr (rdigits, resultLength)"
| "divideByTwo_loop (d # ds) carry rdigits resultLength =
     (let digitValue = convertHexDigitToInt d + carry * 16;
          newDigit = digitValue sdiv 2;
          carry' = digitValue smod 2
      in if newDigit > 0 \<or> resultLength > 0 then
           (case convertIntToHexChar newDigit of
              Inl e \<Rightarrow> Inl e
            | Inr c \<Rightarrow> divideByTwo_loop ds carry' (rdigits[resultLength := c]) (resultLength + 1))
         else divideByTwo_loop ds carry' rdigits resultLength)"

definition BigHexInt_divideByTwo :: "BigHexInt \<Rightarrow> error + BigHexInt" where
  "BigHexInt_divideByTwo a =
     (if BigHexInt_isZero a then BigHexInt_createFromString ''0''
      else
        (case divideByTwo_loop (rev (take (len a) (digits a))) 0
                (replicate MAX_HEX_RESULT_SIZE (CHR ''0'')) 0 of
           Inl e \<Rightarrow> Inl e
         | Inr (rdigits, resultLength) \<Rightarrow>
             if resultLength = 0
             then Inr \<lparr>digits = rdigits[0 := CHR ''0''], len = 1, isNegative = False\<rparr>
             else Inr \<lparr>digits = rev (take resultLength rdigits) @ drop resultLength rdigits,
                       len = resultLength, isNegative = isNegative a\<rparr>))"

text \<open>\<open>(x * y) % modulus\<close>, as the loop of \<^verbatim>\<open>modPow\<close> computes it twice.\<close>

definition BigHexInt_mulmod ::
  "karatsubaMemo \<Rightarrow> BigHexInt \<Rightarrow> BigHexInt \<Rightarrow> BigHexInt \<Rightarrow>
   ((error + BigHexInt) \<times> karatsubaMemo) option" where
  "BigHexInt_mulmod memo x y modulus =
     Option.bind (BigHexInt_times_mod memo x y) (\<lambda>(r, memo').
       case r of
         Inl e \<Rightarrow> Some (Inl e, memo')
       | Inr product \<Rightarrow> map_option (\<lambda>q. (q, memo')) (BigHexInt_rem_mod product modulus))"

partial_function (option) modPow_loop ::
  "karatsubaMemo \<Rightarrow> BigHexInt \<Rightarrow> BigHexInt \<Rightarrow> BigHexInt \<Rightarrow> BigHexInt \<Rightarrow>
   ((error + BigHexInt) \<times> karatsubaMemo) option" where
  "modPow_loop memo result base exp modulus =
     (if \<not> BigHexInt_isZero exp then
        Option.bind
          (if BigHexInt_isOdd exp then BigHexInt_mulmod memo result base modulus
           else Some (Inr result, memo))
          (\<lambda>(r1, memo1).
             case r1 of
               Inl e \<Rightarrow> Some (Inl e, memo1)
             | Inr result' \<Rightarrow>
                 Option.bind (BigHexInt_mulmod memo1 base base modulus) (\<lambda>(r2, memo2).
                   case r2 of
                     Inl e \<Rightarrow> Some (Inl e, memo2)
                   | Inr base' \<Rightarrow>
                       (case BigHexInt_divideByTwo exp of
                          Inl e \<Rightarrow> Some (Inl e, memo2)
                        | Inr exp' \<Rightarrow> modPow_loop memo2 result' base' exp' modulus)))
      else Some (Inr result, memo))"

declare modPow_loop.simps [code]

text \<open>
  \<^verbatim>\<open>BigHexInt::modPow\<close>. \<^verbatim>\<open>BigHexInt("0")\<close> is \<^verbatim>\<open>createFromString("0")\<close>. The base is
  reduced first; for a negative base the source computes \<open>modulus - (|base| % modulus)\<close>.
\<close>

definition BigHexInt_modPow ::
  "karatsubaMemo \<Rightarrow> BigHexInt \<Rightarrow> BigHexInt \<Rightarrow> BigHexInt \<Rightarrow>
   ((error + BigHexInt) \<times> karatsubaMemo) option" where
  "BigHexInt_modPow memo a exponent modulus =
     (if BigHexInt_isZero modulus then Some (Inl (invalid_argument ''Modulus cannot be zero''), memo)
      else if BigHexInt_isOne modulus then Some (BigHexInt_createFromString ''0'', memo)
      else if BigHexInt_isZero exponent then Some (BigHexInt_createFromString ''1'', memo)
      else if BigHexInt_isZero a then Some (BigHexInt_createFromString ''0'', memo)
      else if isNegative exponent then
        Some (Inl (invalid_argument ''Negative exponents not supported in modular exponentiation''),
              memo)
      else
        Option.bind
          (if isNegative a
           then map_option (map_sum id (\<lambda>temp. BigHexInt_minus modulus temp))
                  (BigHexInt_rem_mod (a\<lparr>isNegative := False\<rparr>) modulus)
           else BigHexInt_rem_mod a modulus)
          (\<lambda>r. case r of
             Inl e \<Rightarrow> Some (Inl e, memo)
           | Inr base \<Rightarrow>
               if BigHexInt_isZero base then Some (BigHexInt_createFromString ''0'', memo)
               else
                 (case BigHexInt_createFromString ''1'' of
                    Inl e \<Rightarrow> Some (Inl e, memo)
                  | Inr result \<Rightarrow> modPow_loop memo result base exponent modulus)))"

section \<open>Hexadecimal values of BigIntv1.cpp\<close>

text \<open>
  In BigIntv1.cpp the array is \<^verbatim>\<open>char digits[HEX_SIZE]\<close> with \<open>HEX_SIZE = 128\<close>, and the
  loops run over the \<open>length\<close> low cells. The class has a copy assignment operator of
  its own, which copies the \<open>length\<close> low cells and clears the others
  (\<open>BigHexInt_assign_v1\<close>); it is applied wherever the source assigns to an existing
  object. \<^verbatim>\<open>convertHexDigitToInt\<close>, \<^verbatim>\<open>clone\<close>, \<^verbatim>\<open>getLower\<close> and \<^verbatim>\<open>getHigher\<close> are as in
  BigInt.cpp, and the length adjustment is \<open>hex_trim\<close> again.
\<close>

definition convertIntToHexChar_v1 :: "int \<Rightarrow> error + char" where
  "convertIntToHexChar_v1 n =
     (if n \<ge> 0 \<and> n \<le> 9 then Inr (char_of (48 + n))
      else if n \<ge> 10 \<and> n < 16 then Inr (char_of (97 + (n - 10)))
      else Inl (InvalidInputException (''Invalid integer value for hex conversion: '' @ show_int n)))"

definition BigHexInt_new_v1 :: BigHexInt where
  "BigHexInt_new_v1 = \<lparr>digits = replicate HEX_SIZE_v1 (CHR ''0''), len = 1, isNegative = False\<rparr>"

definition BigHexInt_assign_v1 :: "BigHexInt \<Rightarrow> BigHexInt" where
  "BigHexInt_assign_v1 other =
     \<lparr>digits = take (len other) (digits other) @ replicate (HEX_SIZE_v1 - len other) (CHR ''0''),
      len = len other, isNegative = isNegative other\<rparr>"

definition BigHexInt_isValidInput_v1 :: "string \<Rightarrow> bool" where
  "BigHexInt_isValidInput_v1 str =
     (if str = [] then False
      else if length str > HEX_SIZE_v1 + 1 then False
      else let start = (if str ! 0 = CHR ''-'' then 1 else 0)
           in if start = 1 \<and> length str = 1 then False
              else list_all isHexChar (drop start str))"

text \<open>
  \<^verbatim>\<open>while (actual_start < str.length() - 1 && str[actual_start] == '0') actual_start++;\<close>
  applied to the text behind the sign: it drops zeros while more than one character is
  left.
\<close>

fun skip_leading_zeros :: "string \<Rightarrow> string" where
  "skip_leading_zeros (c # d # cs) =
     (if c = CHR ''0'' then skip_leading_zeros (d # cs) else c # d # cs)"
| "skip_leading_zeros cs = cs"

definition BigHexInt_createFromString_v1 :: "string \<Rightarrow> error + BigHexInt" where
  "BigHexInt_createFromString_v1 str =
     (if \<not> BigHexInt_isValidInput_v1 str then Inl (InvalidInputException str)
      else
        let neg = (str ! 0 = CHR ''-'');
            start = (if neg then 1 else 0);
            body = skip_leading_zeros (drop start str);
            inputLength = length body
        in if inputLength > HEX_SIZE_v1
           then Inl (OverflowException
                  (''BigHexInt creation: input too long (max '' @ show_nat HEX_SIZE_v1 @
                   '' hex digits)''))
           else if inputLength = 1 \<and> body ! 0 = CHR ''0''
           then Inr \<lparr>digits = replicate HEX_SIZE_v1 (CHR ''0''), len = 1, isNegative = False\<rparr>
           else Inr \<lparr>digits = rev body @ replicate (HEX_SIZE_v1 - inputLength) (CHR ''0''),
                     len = inputLength, isNegative = neg\<rparr>)"

text \<open>The constructor \<^verbatim>\<open>BigHexInt(const std::string&)\<close>: \<^verbatim>\<open>*this = createFromString(str)\<close>.\<close>

definition BigHexInt_of_string_v1 :: "string \<Rightarrow> error + BigHexInt" where
  "BigHexInt_of_string_v1 str = map_sum id BigHexInt_assign_v1 (BigHexInt_createFromString_v1 str)"

definition BigHexInt_isZero_v1 :: "BigHexInt \<Rightarrow> bool" where
  "BigHexInt_isZero_v1 a = (len a = 1 \<and> digits a ! 0 = CHR ''0'')"

definition BigHexInt_isOne_v1 :: "BigHexInt \<Rightarrow> bool" where
  "BigHexInt_isOne_v1 a = (len a = 1 \<and> digits a ! 0 = CHR ''1'' \<and> \<not> isNegative a)"

definition BigHexInt_isEven_v1 :: "BigHexInt \<Rightarrow> bool" where
  "BigHexInt_isEven_v1 a = (convertHexDigitToInt (digits a ! 0) smod 2 = 0)"

definition BigHexInt_toString_v1 :: "BigHexInt \<Rightarrow> string" where
  "BigHexInt_toString_v1 a =
     (if isNegative a \<and> \<not> BigHexInt_isZero_v1 a then [CHR ''-''] else []) @
     rev (take (hex_trim (digits a) (len a)) (digits a))"

text \<open>
  \<^verbatim>\<open>BigHexInt::compare\<close>: signs, then lengths, then the digits from cell \<open>length - 1\<close>
  down; \<open>sign_multiplier\<close> is \<open>-1\<close> when both are negative.
\<close>

fun BigHexInt_compare_loop_v1 :: "int \<Rightarrow> char list \<Rightarrow> char list \<Rightarrow> nat \<Rightarrow> int" where
  "BigHexInt_compare_loop_v1 sign_multiplier a b 0 = 0"
| "BigHexInt_compare_loop_v1 sign_multiplier a b (Suc i) =
     (let digitA = convertHexDigitToInt (a ! i); digitB = convertHexDigitToInt (b ! i)
      in if digitA \<noteq> digitB then (if digitA > digitB then 1 else - 1) * sign_multiplier
         else BigHexInt_compare_loop_v1 sign_multiplier a b i)"

definition BigHexInt_compare_v1 :: "BigHexInt \<Rightarrow> BigHexInt \<Rightarrow> int" where
  "BigHexInt_compare_v1 a b =
     (if isNegative a \<and> \<not> isNegative b then - 1
      else if \<not> isNegative a \<and> isNegative b then 1
      else
        let sign_multiplier = (if isNegative a then - 1 else 1)
        in if len a \<noteq> len b then (if len a > len b then 1 else - 1) * sign_multiplier
           else BigHexInt_compare_loop_v1 sign_multiplier (digits a) (digits b) (len a))"

text \<open>
  The loop of \<^verbatim>\<open>operator+\<close>: \<^verbatim>\<open>for (i = 0; i < max_len || carry; i++)\<close>, which throws
  when it reaches cell \<open>HEX_SIZE\<close>.
\<close>

function BigHexInt_add_loop_v1 ::
  "BigHexInt \<Rightarrow> BigHexInt \<Rightarrow> nat \<Rightarrow> nat \<Rightarrow> int \<Rightarrow> BigHexInt \<Rightarrow> error + BigHexInt" where
  "BigHexInt_add_loop_v1 a b max_len i carry r =
     (if i < max_len \<or> carry \<noteq> 0 then
        let digitA = (if i < len a then convertHexDigitToInt (digits a ! i) else 0);
            digitB = (if i < len b then convertHexDigitToInt (digits b ! i) else 0);
            sum = digitA + digitB + carry
        in if i \<ge> HEX_SIZE_v1 then Inl (OverflowException ''hexadecimal addition'')
           else
             (case convertIntToHexChar_v1 (sum smod 16) of
                Inl e \<Rightarrow> Inl e
              | Inr c \<Rightarrow>
                  BigHexInt_add_loop_v1 a b max_len (i + 1) (sum sdiv 16)
                    (r\<lparr>digits := (digits r)[i := c], len := i + 1\<rparr>))
      else Inr r)"
  by pat_completeness auto
termination
  by (relation "measure (\<lambda>(a, b, max_len, i, carry, r). HEX_SIZE_v1 - i)") auto

text \<open>
  The loop of \<^verbatim>\<open>operator-\<close> over the cells of the operand of larger magnitude; the
  second list holds the other operand's \<open>length\<close> low cells, and a cell it does not have
  counts as 0.
\<close>

fun hex_sub_digits_v1 :: "char list \<Rightarrow> char list \<Rightarrow> int \<Rightarrow> error + char list" where
  "hex_sub_digits_v1 [] ys borrow = Inr []"
| "hex_sub_digits_v1 (x # xs) ys borrow =
     (let digitL = convertHexDigitToInt x;
          digitS = (case ys of [] \<Rightarrow> 0 | y # ys' \<Rightarrow> convertHexDigitToInt y);
          diff = digitL - digitS - borrow
      in (case convertIntToHexChar_v1 (if diff < 0 then diff + 16 else diff) of
            Inl e \<Rightarrow> Inl e
          | Inr c \<Rightarrow>
              (case hex_sub_digits_v1 xs (tl ys) (if diff < 0 then 1 else 0) of
                 Inl e \<Rightarrow> Inl e
               | Inr cs \<Rightarrow> Inr (c # cs))))"

function BigHexInt_plus_v1 :: "BigHexInt \<Rightarrow> BigHexInt \<Rightarrow> error + BigHexInt"
  and BigHexInt_minus_v1 :: "BigHexInt \<Rightarrow> BigHexInt \<Rightarrow> error + BigHexInt" where
  "BigHexInt_plus_v1 a b =
     (if isNegative a \<noteq> isNegative b then
        let absA = a\<lparr>isNegative := False\<rparr>; absB = b\<lparr>isNegative := False\<rparr>
        in if BigHexInt_compare_v1 absA absB \<ge> 0 then
             (case BigHexInt_minus_v1 absA absB of
                Inl e \<Rightarrow> Inl e
              | Inr res \<Rightarrow> Inr (res\<lparr>isNegative := isNegative a\<rparr>))
           else
             (case BigHexInt_minus_v1 absB absA of
                Inl e \<Rightarrow> Inl e
              | Inr res \<Rightarrow> Inr (res\<lparr>isNegative := isNegative b\<rparr>))
      else
        (case BigHexInt_add_loop_v1 a b (max (len a) (len b)) 0 0
                (BigHexInt_new_v1\<lparr>isNegative := isNegative a\<rparr>) of
           Inl e \<Rightarrow> Inl e
         | Inr r \<Rightarrow>
             if len r > HEX_SIZE_v1
             then Inl (OverflowException ''hexadecimal addition: result too large'')
             else Inr (r\<lparr>len := hex_trim (digits r) (len r)\<rparr>)))"
| "BigHexInt_minus_v1 a b =
     (if isNegative a \<noteq> isNegative b then
        BigHexInt_plus_v1 a (b\<lparr>isNegative := \<not> isNegative b\<rparr>)
      else
        let cmp_abs = (if len a \<noteq> len b then (if len a > len b then 1 else - 1)
                       else BigHexInt_compare_loop_v1 1 (digits a) (digits b) (len a));
            larger_abs = (if cmp_abs \<ge> 0 then a else b);
            smaller_abs = (if cmp_abs \<ge> 0 then b else a);
            sign = (if cmp_abs \<ge> 0 then isNegative a else \<not> isNegative a)
        in (case hex_sub_digits_v1 (take (len larger_abs) (digits larger_abs))
                  (take (len smaller_abs) (digits smaller_abs)) 0 of
              Inl e \<Rightarrow> Inl e
            | Inr cs \<Rightarrow>
                let ds = cs @ drop (length cs) (replicate HEX_SIZE_v1 (CHR ''0''));
                    n = hex_trim ds (len larger_abs)
                in Inr \<lparr>digits = ds, len = n,
                        isNegative = (if n = 1 \<and> ds ! 0 = CHR ''0'' then False else sign)\<rparr>))"
  by pat_completeness auto
termination
  by (relation "measure (\<lambda>x. case x of
          Inl (a, b) \<Rightarrow> (if isNegative a \<noteq> isNegative b then 1 else 0)
        | Inr (a, b) \<Rightarrow> (if isNegative a \<noteq> isNegative b then 1 else 0))") auto

definition BigHexInt_addOne_v1 :: "BigHexInt \<Rightarrow> error + BigHexInt" where
  "BigHexInt_addOne_v1 a =
     (case BigHexInt_of_string_v1 ''1'' of Inl e \<Rightarrow> Inl e | Inr one \<Rightarrow> BigHexInt_plus_v1 a one)"

definition BigHexInt_subtractOne_v1 :: "BigHexInt \<Rightarrow> error + BigHexInt" where
  "BigHexInt_subtractOne_v1 a =
     (case BigHexInt_of_string_v1 ''1'' of Inl e \<Rightarrow> Inl e | Inr one \<Rightarrow> BigHexInt_minus_v1 a one)"

subsection \<open>Multiplication\<close>

definition BigHexInt_shiftLeftInPlace_v1 :: "BigHexInt \<Rightarrow> int \<Rightarrow> error + BigHexInt" where
  "BigHexInt_shiftLeftInPlace_v1 a n =
     (if n < 0
      then Inl (InvalidInputException ''Negative shift amount not supported for shiftLeftInPlace.'')
      else if n = 0 then Inr a
      else if BigHexInt_isZero_v1 a then Inr a
      else if int (len a) + n > int HEX_SIZE_v1
      then Inl (OverflowException ''shift left operation: result exceeds max hex digits'')
      else Inr (a\<lparr>digits := replicate (nat n) (CHR ''0'') @ take (len a) (digits a) @
                              drop (len a + nat n) (digits a),
                   len := len a + nat n\<rparr>))"

definition BigHexInt_shiftLeft_v1 :: "BigHexInt \<Rightarrow> int \<Rightarrow> error + BigHexInt" where
  "BigHexInt_shiftLeft_v1 a n = BigHexInt_shiftLeftInPlace_v1 (BigHexInt_clone a) n"

definition BigHexInt_pad_v1 :: "BigHexInt \<Rightarrow> nat \<Rightarrow> error + BigHexInt" where
  "BigHexInt_pad_v1 a targetLen =
     (let res = BigHexInt_clone a
      in if len res < targetLen then
           (if targetLen > HEX_SIZE_v1
            then Inl (OverflowException ''padding: target length exceeds max hex digits'')
            else Inr (res\<lparr>digits := take (len res) (digits res) @
                                     replicate (targetLen - len res) (CHR ''0'') @
                                     drop targetLen (digits res),
                         len := targetLen\<rparr>))
         else Inr res)"

fun hex_mul_row_v1 :: "int \<Rightarrow> char list \<Rightarrow> int \<Rightarrow> char list \<Rightarrow> error + char list" where
  "hex_mul_row_v1 a_digit bs carry [] = Inr []"
| "hex_mul_row_v1 a_digit (b # bs) carry (r # rs) =
     (let prod = convertHexDigitToInt r + a_digit * convertHexDigitToInt b + carry
      in (case convertIntToHexChar_v1 (prod smod 16) of
            Inl e \<Rightarrow> Inl e
          | Inr c \<Rightarrow>
              (case hex_mul_row_v1 a_digit bs (prod sdiv 16) rs of
                 Inl e \<Rightarrow> Inl e
               | Inr cs \<Rightarrow> Inr (c # cs))))"
| "hex_mul_row_v1 a_digit [] carry (r # rs) =
     (if carry \<noteq> 0 then
        let prod = convertHexDigitToInt r + a_digit * 0 + carry
        in (case convertIntToHexChar_v1 (prod smod 16) of
              Inl e \<Rightarrow> Inl e
            | Inr c \<Rightarrow>
                (case hex_mul_row_v1 a_digit [] (prod sdiv 16) rs of
                   Inl e \<Rightarrow> Inl e
                 | Inr cs \<Rightarrow> Inr (c # cs)))
      else Inr (r # rs))"

fun hex_mul_rows_v1 :: "char list \<Rightarrow> char list \<Rightarrow> char list \<Rightarrow> error + char list" where
  "hex_mul_rows_v1 [] bs rs = Inr rs"
| "hex_mul_rows_v1 (a # as) bs rs =
     (case hex_mul_row_v1 (convertHexDigitToInt a) bs 0 rs of
        Inl e \<Rightarrow> Inl e
      | Inr [] \<Rightarrow> Inr []
      | Inr (r # rs') \<Rightarrow>
          (case hex_mul_rows_v1 as bs rs' of
             Inl e \<Rightarrow> Inl e
           | Inr cs \<Rightarrow> Inr (r # cs)))"

definition BigHexInt_multiplyNaive_v1 :: "BigHexInt \<Rightarrow> BigHexInt \<Rightarrow> error + BigHexInt" where
  "BigHexInt_multiplyNaive_v1 a b =
     (if BigHexInt_isZero_v1 a \<or> BigHexInt_isZero_v1 b then BigHexInt_of_string_v1 ''0''
      else if len a + len b > HEX_SIZE_v1
      then Inl (OverflowException ''naive multiplication: result too large'')
      else
        (case hex_mul_rows_v1 (take (len a) (digits a)) (take (len b) (digits b))
                (replicate HEX_SIZE_v1 (CHR ''0'')) of
           Inl e \<Rightarrow> Inl e
         | Inr ds \<Rightarrow> Inr \<lparr>digits = ds, len = hex_trim ds (len a + len b),
                           isNegative = (isNegative a \<noteq> isNegative b)\<rparr>))"

definition karatsuba_key_v1 :: "BigHexInt \<Rightarrow> BigHexInt \<Rightarrow> string \<times> string" where
  "karatsuba_key_v1 a b =
     (let thisStr = BigHexInt_toString_v1 a; otherStr = BigHexInt_toString_v1 b
      in if thisStr > otherStr then (otherStr, thisStr) else (thisStr, otherStr))"

text \<open>
  The tail of \<^verbatim>\<open>karatsuba\<close> once the three products are there: \<open>z1 = z1 - z2\<close>,
  \<open>z1 = z1 - z0\<close>, the two shifts, \<open>result = part1 + part2 + z0\<close>, the sign and the
  length adjustment. Each step may throw.
\<close>

definition karatsuba_combine_v1 ::
  "BigHexInt \<Rightarrow> BigHexInt \<Rightarrow> BigHexInt \<Rightarrow> nat \<Rightarrow> bool \<Rightarrow> error + BigHexInt" where
  "karatsuba_combine_v1 z0 z1 z2 m sign =
     (case BigHexInt_minus_v1 z1 z2 of
        Inl e \<Rightarrow> Inl e
      | Inr d1 \<Rightarrow>
      (case BigHexInt_minus_v1 (BigHexInt_assign_v1 d1) z0 of
        Inl e \<Rightarrow> Inl e
      | Inr d2 \<Rightarrow>
      (case BigHexInt_shiftLeft_v1 z2 (2 * int m) of
        Inl e \<Rightarrow> Inl e
      | Inr part1 \<Rightarrow>
      (case BigHexInt_shiftLeft_v1 (BigHexInt_assign_v1 d2) (int m) of
        Inl e \<Rightarrow> Inl e
      | Inr part2 \<Rightarrow>
      (case BigHexInt_plus_v1 part1 part2 of
        Inl e \<Rightarrow> Inl e
      | Inr s1 \<Rightarrow>
      (case BigHexInt_plus_v1 s1 z0 of
        Inl e \<Rightarrow> Inl e
      | Inr s2 \<Rightarrow>
          let r = (BigHexInt_assign_v1 s2)\<lparr>isNegative := sign\<rparr>
          in Inr (r\<lparr>len := hex_trim (digits r) (len r)\<rparr>)))))))"

partial_function (option) BigHexInt_karatsuba_v1 ::
  "karatsubaMemo \<Rightarrow> BigHexInt \<Rightarrow> BigHexInt \<Rightarrow> ((error + BigHexInt) \<times> karatsubaMemo) option" where
  "BigHexInt_karatsuba_v1 memo a b =
     (let key = karatsuba_key_v1 a b in
      case memo key of
        Some s \<Rightarrow> Some (BigHexInt_createFromString_v1 s, memo)
      | None \<Rightarrow>
          if len a \<le> KARATSUBA_THRESHOLD_v1 \<or> len b \<le> KARATSUBA_THRESHOLD_v1 then
            (case BigHexInt_multiplyNaive_v1 a b of
               Inl e \<Rightarrow> Some (Inl e, memo)
             | Inr product \<Rightarrow>
                 let result = BigHexInt_assign_v1 product
                 in Some (Inr result, memo(key \<mapsto> BigHexInt_toString_v1 result)))
          else if BigHexInt_isZero_v1 a \<or> BigHexInt_isZero_v1 b then
            (case BigHexInt_of_string_v1 ''0'' of
               Inl e \<Rightarrow> Some (Inl e, memo)
             | Inr zero_val \<Rightarrow> Some (Inr zero_val, memo(key \<mapsto> BigHexInt_toString_v1 zero_val)))
          else
            let n0 = max (len a) (len b);
                n = (if n0 mod 2 \<noteq> 0 then n0 + 1 else n0);
                m = n div 2
            in (case BigHexInt_pad_v1 a n of
                  Inl e \<Rightarrow> Some (Inl e, memo)
                | Inr x \<Rightarrow>
                (case BigHexInt_pad_v1 b n of
                  Inl e \<Rightarrow> Some (Inl e, memo)
                | Inr y \<Rightarrow>
                    let low1 = BigHexInt_getLower x m;
                        high1 = BigHexInt_getHigher x m;
                        low2 = BigHexInt_getLower y m;
                        high2 = BigHexInt_getHigher y m
                    in Option.bind (BigHexInt_karatsuba_v1 memo low1 low2) (\<lambda>(r0, memo0).
                         case r0 of
                           Inl e \<Rightarrow> Some (Inl e, memo0)
                         | Inr z0 \<Rightarrow>
                             Option.bind (BigHexInt_karatsuba_v1 memo0 high1 high2) (\<lambda>(r2, memo2).
                               case r2 of
                                 Inl e \<Rightarrow> Some (Inl e, memo2)
                               | Inr z2 \<Rightarrow>
                                   (case BigHexInt_plus_v1 low1 high1 of
                                      Inl e \<Rightarrow> Some (Inl e, memo2)
                                    | Inr sum1 \<Rightarrow>
                                   (case BigHexInt_plus_v1 low2 high2 of
                                      Inl e \<Rightarrow> Some (Inl e, memo2)
                                    | Inr sum2 \<Rightarrow>
                                        Option.bind (BigHexInt_karatsuba_v1 memo2 sum1 sum2)
                                          (\<lambda>(r1, memo1).
                                             case r1 of
                                               Inl e \<Rightarrow> Some (Inl e, memo1)
                                             | Inr z1 \<Rightarrow>
                                                 (case karatsuba_combine_v1 z0 z1 z2 m
                                                         (isNegative a \<noteq> isNegative b) of
                                                    Inl e \<Rightarrow> Some (Inl e, memo1)
                                                  | Inr result \<Rightarrow>
                                                      Some (Inr result,
                                                            memo1(key \<mapsto>
                                                              BigHexInt_toString_v1 result)))))))))))"

declare BigHexInt_karatsuba_v1.simps [code]

definition BigHexInt_times_v1 ::
  "karatsubaMemo \<Rightarrow> BigHexInt \<Rightarrow> BigHexInt \<Rightarrow> ((error + BigHexInt) \<times> karatsubaMemo) option" where
  "BigHexInt_times_v1 memo a b =
     (if len a + len b > KARATSUBA_THRESHOLD_v1 * 2 then BigHexInt_karatsuba_v1 memo a b
      else Some (BigHexInt_multiplyNaive_v1 a b, memo))"

subsection \<open>Division\<close>

text \<open>
  \<open>shift_in_v1 c x\<close> is the step that \<^verbatim>\<open>divide\<close> applies to the partial dividend and to
  the quotient: move the \<open>length\<close> low cells up by one, put \<open>c\<close> into cell 0, count
  one digit more and adjust the length.
\<close>

definition shift_in_v1 :: "char \<Rightarrow> BigHexInt \<Rightarrow> BigHexInt" where
  "shift_in_v1 c x =
     (let ds = c # take (len x) (digits x) @ drop (len x + 1) (digits x)
      in x\<lparr>digits := ds, len := hex_trim ds (len x + 1)\<rparr>)"

text \<open>\<^verbatim>\<open>BigHexInt(std::string(1, convertIntToHexChar(d)))\<close>.\<close>

definition BigHexInt_of_digit_v1 :: "int \<Rightarrow> error + BigHexInt" where
  "BigHexInt_of_digit_v1 d =
     (case convertIntToHexChar_v1 d of Inl e \<Rightarrow> Inl e | Inr c \<Rightarrow> BigHexInt_of_string_v1 [c])"

text \<open>
  The search \<^verbatim>\<open>for (int d = 1; d < 16; ++d)\<close> for the quotient digit, which stops at the
  first multiple of the divisor above the partial dividend.
\<close>

fun find_q_digit_v1 :: "BigHexInt \<Rightarrow> BigHexInt \<Rightarrow> int list \<Rightarrow> int \<Rightarrow> error + int" where
  "find_q_digit_v1 cur abs_divisor [] q_digit = Inr q_digit"
| "find_q_digit_v1 cur abs_divisor (d # ds) q_digit =
     (case BigHexInt_of_digit_v1 d of
        Inl e \<Rightarrow> Inl e
      | Inr dv \<Rightarrow>
          (case BigHexInt_multiplyNaive_v1 abs_divisor dv of
             Inl e \<Rightarrow> Inl e
           | Inr next_mult \<Rightarrow>
               if BigHexInt_compare_v1 cur next_mult \<ge> 0
               then find_q_digit_v1 cur abs_divisor ds d
               else Inr q_digit))"

fun divide_loop_v1 ::
  "char list \<Rightarrow> BigHexInt \<Rightarrow> BigHexInt \<Rightarrow> BigHexInt \<Rightarrow> error + BigHexInt \<times> BigHexInt" where
  "divide_loop_v1 [] abs_divisor cur quot = Inr (quot, cur)"
| "divide_loop_v1 (c # cs) abs_divisor cur quot =
     (let cur1 = shift_in_v1 c cur
      in if BigHexInt_compare_v1 cur1 abs_divisor < 0 then
           (if len quot > 1 \<or> digits quot ! 0 \<noteq> CHR ''0'' then
              (case BigHexInt_shiftLeftInPlace_v1 quot 1 of
                 Inl e \<Rightarrow> Inl e
               | Inr quot' \<Rightarrow> divide_loop_v1 cs abs_divisor cur1 quot')
            else divide_loop_v1 cs abs_divisor cur1 quot)
         else
           (case find_q_digit_v1 cur1 abs_divisor [1..15] 0 of
              Inl e \<Rightarrow> Inl e
            | Inr q_digit \<Rightarrow>
            (case BigHexInt_of_digit_v1 q_digit of
              Inl e \<Rightarrow> Inl e
            | Inr qv \<Rightarrow>
            (case BigHexInt_multiplyNaive_v1 abs_divisor qv of
              Inl e \<Rightarrow> Inl e
            | Inr subtract_val \<Rightarrow>
            (case BigHexInt_minus_v1 cur1 subtract_val of
              Inl e \<Rightarrow> Inl e
            | Inr diff \<Rightarrow>
            (case convertIntToHexChar_v1 q_digit of
              Inl e \<Rightarrow> Inl e
            | Inr qc \<Rightarrow>
                divide_loop_v1 cs abs_divisor (BigHexInt_assign_v1 diff)
                  (shift_in_v1 qc quot)))))))"

definition BigHexInt_divide_v1 ::
  "BigHexInt \<Rightarrow> BigHexInt \<Rightarrow> BigHexInt option \<Rightarrow> error + BigHexInt \<times> BigHexInt option" where
  "BigHexInt_divide_v1 a divisor remainder_ptr =
     (let abs_this = a\<lparr>isNegative := False\<rparr>;
          abs_divisor = divisor\<lparr>isNegative := False\<rparr>
      in if BigHexInt_isZero_v1 abs_divisor then Inl DivisionByZeroException
         else
           (case BigHexInt_of_string_v1 ''0'' of
              Inl e \<Rightarrow> Inl e
            | Inr zero \<Rightarrow>
                if BigHexInt_isZero_v1 abs_this
                then Inr (zero, map_option (\<lambda>r. BigHexInt_assign_v1 zero) remainder_ptr)
                else if BigHexInt_compare_v1 abs_this abs_divisor < 0
                then Inr (zero, map_option (\<lambda>r. BigHexInt_assign_v1 abs_this) remainder_ptr)
                else
                  (case divide_loop_v1 (rev (take (len a) (digits a))) abs_divisor
                          BigHexInt_new_v1 BigHexInt_new_v1 of
                     Inl e \<Rightarrow> Inl e
                   | Inr (quot, cur) \<Rightarrow>
                       let q1 = quot\<lparr>isNegative := (isNegative a \<noteq> isNegative divisor)\<rparr>;
                           q = (if BigHexInt_isZero_v1 q1 then q1\<lparr>isNegative := False\<rparr> else q1);
                           r1 = (BigHexInt_assign_v1 cur)\<lparr>isNegative := isNegative a\<rparr>;
                           r = (if BigHexInt_isZero_v1 r1 then r1\<lparr>isNegative := False\<rparr> else r1)
                       in Inr (q, map_option (\<lambda>x. r) remainder_ptr))))"

definition BigHexInt_div_v1 :: "BigHexInt \<Rightarrow> BigHexInt \<Rightarrow> error + BigHexInt" where
  "BigHexInt_div_v1 a b = map_sum id fst (BigHexInt_divide_v1 a b (Some BigHexInt_new_v1))"

definition BigHexInt_rem_v1 :: "BigHexInt \<Rightarrow> BigHexInt \<Rightarrow> error + BigHexInt" where
  "BigHexInt_rem_v1 a b =
     (case BigHexInt_divide_v1 a b (Some BigHexInt_new_v1) of
        Inl e \<Rightarrow> Inl e
      | Inr (q, r) \<Rightarrow> Inr (the r))"

subsection \<open>Modular power, random values and the Miller-Rabin test\<close>

text \<open>\<open>(x * y) % n\<close>, assigned to an existing object.\<close>

definition BigHexInt_mulmod_v1 ::
  "karatsubaMemo \<Rightarrow> BigHexInt \<Rightarrow> BigHexInt \<Rightarrow> BigHexInt \<Rightarrow>
   ((error + BigHexInt) \<times> karatsubaMemo) option" where
  "BigHexInt_mulmod_v1 memo x y n =
     Option.bind (BigHexInt_times_v1 memo x y) (\<lambda>(r, memo').
       case r of
         Inl e \<Rightarrow> Some (Inl e, memo')
       | Inr product \<Rightarrow> Some (map_sum id BigHexInt_assign_v1 (BigHexInt_rem_v1 product n), memo'))"

partial_function (option) modPower_loop_v1 ::
  "karatsubaMemo \<Rightarrow> BigHexInt \<Rightarrow> BigHexInt \<Rightarrow> BigHexInt \<Rightarrow> BigHexInt \<Rightarrow> BigHexInt \<Rightarrow>
   BigHexInt \<Rightarrow> ((error + BigHexInt) \<times> karatsubaMemo) option" where
  "modPower_loop_v1 memo res base exp modulus zero two =
     (if BigHexInt_compare_v1 exp zero > 0 then
        Option.bind
          (if convertHexDigitToInt (digits exp ! 0) smod 2 \<noteq> 0
           then BigHexInt_mulmod_v1 memo res base modulus
           else Some (Inr res, memo))
          (\<lambda>(r1, memo1).
             case r1 of
               Inl e \<Rightarrow> Some (Inl e, memo1)
             | Inr res' \<Rightarrow>
                 (case BigHexInt_div_v1 exp two of
                    Inl e \<Rightarrow> Some (Inl e, memo1)
                  | Inr exp' \<Rightarrow>
                      Option.bind (BigHexInt_mulmod_v1 memo1 base base modulus) (\<lambda>(r2, memo2).
                        case r2 of
                          Inl e \<Rightarrow> Some (Inl e, memo2)
                        | Inr base' \<Rightarrow>
                            modPower_loop_v1 memo2 res' base' (BigHexInt_assign_v1 exp') modulus
                              zero two)))
      else Some (Inr res, memo))"

declare modPower_loop_v1.simps [code]

definition BigHexInt_modPower_v1 ::
  "karatsubaMemo \<Rightarrow> BigHexInt \<Rightarrow> BigHexInt \<Rightarrow> BigHexInt \<Rightarrow>
   ((error + BigHexInt) \<times> karatsubaMemo) option" where
  "BigHexInt_modPower_v1 memo a exponent modulus =
     (case BigHexInt_of_string_v1 ''1'' of
        Inl e \<Rightarrow> Some (Inl e, memo)
      | Inr res \<Rightarrow>
      (case BigHexInt_rem_v1 a modulus of
        Inl e \<Rightarrow> Some (Inl e, memo)
      | Inr base \<Rightarrow>
      (case BigHexInt_of_string_v1 ''0'' of
        Inl e \<Rightarrow> Some (Inl e, memo)
      | Inr zero \<Rightarrow>
      (case BigHexInt_of_string_v1 ''2'' of
        Inl e \<Rightarrow> Some (Inl e, memo)
      | Inr two \<Rightarrow>
          modPower_loop_v1 memo res (BigHexInt_assign_v1 base) exponent modulus zero two))))"

text \<open>
  The generator \<^verbatim>\<open>std::mt19937_64 gen\<close> with \<^verbatim>\<open>std::uniform_int_distribution<>(0, 15)\<close> is
  any sequence of numbers together with the position of the next draw; the digit drawn
  is the number at that position modulo 16.
\<close>

type_synonym gen_state = "(nat \<Rightarrow> nat) \<times> nat"

definition getRandomHexDigit :: "gen_state \<Rightarrow> (error + char) \<times> gen_state" where
  "getRandomHexDigit g =
     (convertIntToHexChar_v1 (int (fst g (snd g) mod 16)), (fst g, snd g + 1))"

partial_function (option) draw_nonzero_digit :: "gen_state \<Rightarrow> ((error + char) \<times> gen_state) option" where
  "draw_nonzero_digit g =
     (case getRandomHexDigit g of
        (Inl e, g') \<Rightarrow> Some (Inl e, g')
      | (Inr c, g') \<Rightarrow> if c = CHR ''0'' then draw_nonzero_digit g' else Some (Inr c, g'))"

declare draw_nonzero_digit.simps [code]

fun draw_digits :: "nat \<Rightarrow> gen_state \<Rightarrow> (error + char list) \<times> gen_state" where
  "draw_digits 0 g = (Inr [], g)"
| "draw_digits (Suc k) g =
     (case getRandomHexDigit g of
        (Inl e, g') \<Rightarrow> (Inl e, g')
      | (Inr c, g') \<Rightarrow>
          (case draw_digits k g' of
             (Inl e, g'') \<Rightarrow> (Inl e, g'')
           | (Inr cs, g'') \<Rightarrow> (Inr (c # cs), g'')))"

text \<open>
  \<^verbatim>\<open>BigHexInt::generateRandom\<close>: the top digit is drawn until it is not \<^verbatim>\<open>'0'\<close>, then
  the cells \<open>0 .. numHexDigits - 2\<close> are drawn in order, and cell 0 is made odd.
\<close>

definition BigHexInt_generateRandom ::
  "gen_state \<Rightarrow> int \<Rightarrow> ((error + BigHexInt) \<times> gen_state) option" where
  "BigHexInt_generateRandom g numHexDigits =
     (if numHexDigits \<le> 0 \<or> numHexDigits > int HEX_SIZE_v1
      then Some (Inl (InvalidInputException ''Invalid number of hex digits for random generation.''), g)
      else
        Option.bind (draw_nonzero_digit g) (\<lambda>(top, g1).
          case top of
            Inl e \<Rightarrow> Some (Inl e, g1)
          | Inr c \<Rightarrow>
              (case draw_digits (nat numHexDigits - 1) g1 of
                 (Inl e, g2) \<Rightarrow> Some (Inl e, g2)
               | (Inr cs, g2) \<Rightarrow>
                   let n = nat numHexDigits;
                       ds0 = (cs @ [c]) @ replicate (HEX_SIZE_v1 - n) (CHR ''0'')
                   in (case convertIntToHexChar_v1
                              (or (convertHexDigitToInt (ds0 ! 0)) 1) of
                         Inl e \<Rightarrow> Some (Inl e, g2)
                       | Inr c0 \<Rightarrow>
                           let ds = ds0[0 := c0]
                           in Some (Inr \<lparr>digits = ds, len = hex_trim ds n, isNegative = False\<rparr>,
                                    g2)))))"

partial_function (option) random_below_loop ::
  "gen_state \<Rightarrow> int \<Rightarrow> BigHexInt \<Rightarrow> ((error + BigHexInt) \<times> gen_state) option" where
  "random_below_loop g numDigits range_v =
     Option.bind (BigHexInt_generateRandom g numDigits) (\<lambda>(r, g').
       case r of
         Inl e \<Rightarrow> Some (Inl e, g')
       | Inr v \<Rightarrow>
           let random_val = BigHexInt_assign_v1 v
           in if BigHexInt_compare_v1 random_val range_v > 0
              then random_below_loop g' numDigits range_v
              else Some (Inr random_val, g'))"

declare random_below_loop.simps [code]

definition generateRandomBigHexIntInRange ::
  "gen_state \<Rightarrow> BigHexInt \<Rightarrow> BigHexInt \<Rightarrow> ((error + BigHexInt) \<times> gen_state) option" where
  "generateRandomBigHexIntInRange g min_v max_v =
     (case BigHexInt_minus_v1 max_v min_v of
        Inl e \<Rightarrow> Some (Inl e, g)
      | Inr range0 \<Rightarrow>
          (case (if isNegative range0 then
                   (case BigHexInt_of_string_v1 (BigHexInt_toString_v1 min_v) of
                      Inl e \<Rightarrow> Inl e
                    | Inr temp \<Rightarrow>
                    (case BigHexInt_of_string_v1 (BigHexInt_toString_v1 max_v) of
                      Inl e \<Rightarrow> Inl e
                    | Inr Min' \<Rightarrow>
                    (case BigHexInt_of_string_v1 (BigHexInt_toString_v1 temp) of
                      Inl e \<Rightarrow> Inl e
                    | Inr Max' \<Rightarrow> map_sum id BigHexInt_assign_v1 (BigHexInt_minus_v1 Max' Min'))))
                 else Inr range0) of
             Inl e \<Rightarrow> Some (Inl e, g)
           | Inr range_v \<Rightarrow>
               if len range_v = 1 \<and> digits range_v ! 0 = CHR ''0'' then Some (Inr min_v, g)
               else
                 Option.bind (random_below_loop g (int (len range_v)) range_v) (\<lambda>(r, g').
                   case r of
                     Inl e \<Rightarrow> Some (Inl e, g')
                   | Inr random_val \<Rightarrow> Some (BigHexInt_plus_v1 min_v random_val, g'))))"

text \<open>\<^verbatim>\<open>while (d.isEven()) { d = d / two; s++; }\<close>\<close>

partial_function (option) factor_twos_loop ::
  "BigHexInt \<Rightarrow> int \<Rightarrow> BigHexInt \<Rightarrow> (error + BigHexInt \<times> int) option" where
  "factor_twos_loop d s two =
     (if BigHexInt_isEven_v1 d then
        (case BigHexInt_div_v1 d two of
           Inl e \<Rightarrow> Some (Inl e)
         | Inr q \<Rightarrow> factor_twos_loop (BigHexInt_assign_v1 q) (s + 1) two)
      else Some (Inr (d, s)))"

declare factor_twos_loop.simps [code]

text \<open>
  The inner loop \<^verbatim>\<open>for (int r = 0; r < s; ++r)\<close> of one round, by the number of
  iterations left; it returns \<open>composite\<close>.
\<close>

fun squaring_loop ::
  "nat \<Rightarrow> karatsubaMemo \<Rightarrow> BigHexInt \<Rightarrow> BigHexInt \<Rightarrow> BigHexInt \<Rightarrow>
   ((error + bool) \<times> karatsubaMemo) option" where
  "squaring_loop 0 memo x n n_minus_1 = Some (Inr True, memo)"
| "squaring_loop (Suc k) memo x n n_minus_1 =
     Option.bind (BigHexInt_mulmod_v1 memo x x n) (\<lambda>(r, memo').
       case r of
         Inl e \<Rightarrow> Some (Inl e, memo')
       | Inr x' \<Rightarrow>
           if BigHexInt_isOne_v1 x' then Some (Inr True, memo')
           else if BigHexInt_compare_v1 x' n_minus_1 = 0 then Some (Inr False, memo')
           else squaring_loop k memo' x' n n_minus_1)"

text \<open>The loop over the rounds, \<^verbatim>\<open>for (int i = 0; i < k_iterations; ++i)\<close>, by the rounds left.\<close>

fun rounds_loop ::
  "nat \<Rightarrow> karatsubaMemo \<Rightarrow> gen_state \<Rightarrow> BigHexInt \<Rightarrow> BigHexInt \<Rightarrow> BigHexInt \<Rightarrow> int \<Rightarrow>
   BigHexInt \<Rightarrow> ((error + bool) \<times> karatsubaMemo \<times> gen_state) option" where
  "rounds_loop 0 memo g n n_minus_1 d s two = Some (Inr True, memo, g)"
| "rounds_loop (Suc k) memo g n n_minus_1 d s two =
     (case (case BigHexInt_subtractOne_v1 n of
              Inl e \<Rightarrow> Inl e
            | Inr n1 \<Rightarrow> BigHexInt_subtractOne_v1 n1) of
        Inl e \<Rightarrow> Some (Inl e, memo, g)
      | Inr n_minus_2 \<Rightarrow>
          Option.bind (generateRandomBigHexIntInRange g two n_minus_2) (\<lambda>(ra, g').
            case ra of
              Inl e \<Rightarrow> Some (Inl e, memo, g')
            | Inr a \<Rightarrow>
                Option.bind (BigHexInt_modPower_v1 memo a d n) (\<lambda>(rx, memo1).
                  case rx of
                    Inl e \<Rightarrow> Some (Inl e, memo1, g')
                  | Inr x \<Rightarrow>
                      if BigHexInt_isOne_v1 x \<or> BigHexInt_compare_v1 x n_minus_1 = 0
                      then rounds_loop k memo1 g' n n_minus_1 d s two
                      else
                        Option.bind (squaring_loop (nat s) memo1 x n n_minus_1)
                          (\<lambda>(rc, memo2).
                             case rc of
                               Inl e \<Rightarrow> Some (Inl e, memo2, g')
                             | Inr composite \<Rightarrow>
                                 if composite then Some (Inr False, memo2, g')
                                 else rounds_loop k memo2 g' n n_minus_1 d s two))))"

text \<open>
  \<^verbatim>\<open>BigHexInt::millerRabinTest\<close>. The constants \<open>zero\<close>, \<open>one\<close>, \<open>two\<close>, \<open>three\<close> are built
  from their literals first, as in the source.
\<close>

definition BigHexInt_millerRabinTest ::
  "karatsubaMemo \<Rightarrow> gen_state \<Rightarrow> BigHexInt \<Rightarrow> int \<Rightarrow>
   ((error + bool) \<times> karatsubaMemo \<times> gen_state) option" where
  "BigHexInt_millerRabinTest memo g n k_iterations =
     (case BigHexInt_of_string_v1 ''0'' of
        Inl e \<Rightarrow> Some (Inl e, memo, g)
      | Inr zero \<Rightarrow>
     (case BigHexInt_of_string_v1 ''1'' of
        Inl e \<Rightarrow> Some (Inl e, memo, g)
      | Inr one \<Rightarrow>
     (case BigHexInt_of_string_v1 ''2'' of
        Inl e \<Rightarrow> Some (Inl e, memo, g)
      | Inr two \<Rightarrow>
     (case BigHexInt_of_string_v1 ''3'' of
        Inl e \<Rightarrow> Some (Inl e, memo, g)
      | Inr three \<Rightarrow>
          if BigHexInt_compare_v1 n one \<le> 0 then Some (Inr False, memo, g)
          else if BigHexInt_compare_v1 n two = 0 \<or> BigHexInt_compare_v1 n three = 0
          then Some (Inr True, memo, g)
          else if BigHexInt_isEven_v1 n then Some (Inr False, memo, g)
          else
            (case BigHexInt_subtractOne_v1 n of
               Inl e \<Rightarrow> Some (Inl e, memo, g)
             | Inr n_minus_1 \<Rightarrow>
                 Option.bind (factor_twos_loop n_minus_1 0 two) (\<lambda>r.
                   case r of
                     Inl e \<Rightarrow> Some (Inl e, memo, g)
                   | Inr (d, s) \<Rightarrow>
                       rounds_loop (nat k_iterations) memo g n n_minus_1 d s two))))))"

section \<open>Decimal values of BigIntv1.cpp\<close>

text \<open>
  The decimal class of BigIntv1.cpp has the fields of the one in BigInt.cpp. Its default
  constructor gives \<^verbatim>\<open>length(1)\<close>; \<^verbatim>\<open>createFromString\<close> skips leading zeros and returns
  the default value for the text \<open>0\<close>, whatever the sign.
\<close>

definition BigInt_new_v1 :: BigInt where
  "BigInt_new_v1 = \<lparr>BigInt.digits = replicate MAX_DIGITS 0, len = 1, isNegative = False\<rparr>"

definition BigInt_isValidInput_v1 :: "string \<Rightarrow> bool" where
  "BigInt_isValidInput_v1 str =
     (if str = [] then False
      else if length str > MAX_DIGITS + 1 then False
      else let start = (if str ! 0 = CHR ''-'' then 1 else 0)
           in if start = 1 \<and> length str = 1 then False
              else list_all (\<lambda>c. \<not> (c < CHR ''0'' \<or> c > CHR ''9'')) (drop start str))"

definition BigInt_createFromString_v1 :: "string \<Rightarrow> error + BigInt" where
  "BigInt_createFromString_v1 str =
     (if \<not> BigInt_isValidInput_v1 str then Inl (InvalidInputException str)
      else
        let neg = (str ! 0 = CHR ''-'');
            start = (if neg then 1 else 0);
            body = skip_leading_zeros (drop start str);
            n = length body
        in if n > MAX_DIGITS then Inl (OverflowException ''BigInt creation: input too long'')
           else if n = 1 \<and> body ! 0 = CHR ''0''
           then Inr \<lparr>BigInt.digits = replicate MAX_DIGITS 0, len = 1, isNegative = False\<rparr>
           else Inr \<lparr>BigInt.digits = map (\<lambda>c. int (of_char c) - 48) (rev body) @
                                        replicate (MAX_DIGITS - n) 0,
                     len = n, isNegative = neg\<rparr>)"

definition BigInt_isZero_v1 :: "BigInt \<Rightarrow> bool" where
  "BigInt_isZero_v1 a = (BigInt.len a = 1 \<and> BigInt.digits a ! 0 = 0)"

definition BigInt_print_v1 :: "BigInt \<Rightarrow> string" where
  "BigInt_print_v1 a =
     (if BigInt_isZero_v1 a then ''0''
      else (if BigInt.isNegative a then ''-'' else '''') @
           concat (map (\<lambda>i. show_int (BigInt.digits a ! i)) (rev [0..<BigInt.len a])))"

text \<open>\<^verbatim>\<open>BigInt::compare\<close> of BigIntv1.cpp reads the signs first.\<close>

definition BigInt_compare_v1 :: "BigInt \<Rightarrow> BigInt \<Rightarrow> int" where
  "BigInt_compare_v1 a b =
     (if BigInt.isNegative a \<and> \<not> BigInt.isNegative b then - 1
      else if \<not> BigInt.isNegative a \<and> BigInt.isNegative b then 1
      else
        let sign_multiplier = (if BigInt.isNegative a then - 1 else 1)
        in if BigInt.len a \<noteq> BigInt.len b
           then (if BigInt.len a > BigInt.len b then 1 else - 1) * sign_multiplier
           else BigInt_compare_digits (BigInt.digits a) (BigInt.digits b) (BigInt.len a) *
                sign_multiplier)"

text \<open>
  The loop of \<^verbatim>\<open>operator+\<close>: \<^verbatim>\<open>for (i = 0; i < max_len || carry; i++)\<close>, which throws
  when it reaches cell \<open>MAX_DIGITS\<close> and sets \<open>length\<close> as it goes.
\<close>

function BigInt_add_loop_v1 ::
  "BigInt \<Rightarrow> BigInt \<Rightarrow> nat \<Rightarrow> nat \<Rightarrow> int \<Rightarrow> BigInt \<Rightarrow> error + BigInt" where
  "BigInt_add_loop_v1 a b max_len i carry r =
     (if i < max_len \<or> carry \<noteq> 0 then
        let sum = (if i < BigInt.len a then BigInt.digits a ! i else 0) +
                  (if i < BigInt.len b then BigInt.digits b ! i else 0) + carry
        in if i \<ge> MAX_DIGITS then Inl (OverflowException ''addition'')
           else BigInt_add_loop_v1 a b max_len (i + 1) (sum sdiv 10)
                  (r\<lparr>BigInt.digits := (BigInt.digits r)[i := sum smod 10], BigInt.len := i + 1\<rparr>)
      else Inr r)"
  by pat_completeness auto
termination
  by (relation "measure (\<lambda>(a, b, max_len, i, carry, r). MAX_DIGITS - i)") auto

text \<open>
  The borrow loop of \<^verbatim>\<open>operator-\<close> over the cells of the operand of larger magnitude;
  the second list holds the other operand's \<open>length\<close> low cells, and a cell it does not
  have counts as 0.
\<close>

fun dec_sub_digits_v1 :: "int list \<Rightarrow> int list \<Rightarrow> int \<Rightarrow> int list" where
  "dec_sub_digits_v1 [] ys borrow = []"
| "dec_sub_digits_v1 (x # xs) ys borrow =
     (let digitS = (case ys of [] \<Rightarrow> 0 | y # ys' \<Rightarrow> y);
          diff = x - digitS - borrow
      in (if diff < 0 then diff + 10 else diff) #
         dec_sub_digits_v1 xs (tl ys) (if diff < 0 then 1 else 0))"

function BigInt_plus_v1 :: "BigInt \<Rightarrow> BigInt \<Rightarrow> error + BigInt"
  and BigInt_minus_v1 :: "BigInt \<Rightarrow> BigInt \<Rightarrow> error + BigInt" where
  "BigInt_plus_v1 a b =
     (if BigInt.isNegative a = BigInt.isNegative b then
        (case BigInt_add_loop_v1 a b (max (BigInt.len a) (BigInt.len b)) 0 0
                (BigInt_new_v1\<lparr>BigInt.isNegative := BigInt.isNegative a\<rparr>) of
           Inl e \<Rightarrow> Inl e
         | Inr r \<Rightarrow>
             let r1 = (if BigInt.len r = 0 then r\<lparr>BigInt.len := 1\<rparr> else r)
             in Inr (r1\<lparr>BigInt.len := BigInt_trim (BigInt.digits r1) (BigInt.len r1)\<rparr>))
      else
        let absA = a\<lparr>BigInt.isNegative := False\<rparr>; absB = b\<lparr>BigInt.isNegative := False\<rparr>
        in if BigInt_compare_v1 absA absB \<ge> 0 then
             (case BigInt_minus_v1 absA absB of
                Inl e \<Rightarrow> Inl e
              | Inr res \<Rightarrow> Inr (res\<lparr>BigInt.isNegative := BigInt.isNegative a\<rparr>))
           else
             (case BigInt_minus_v1 absB absA of
                Inl e \<Rightarrow> Inl e
              | Inr res \<Rightarrow> Inr (res\<lparr>BigInt.isNegative := BigInt.isNegative b\<rparr>)))"
| "BigInt_minus_v1 a b =
     (if BigInt.isNegative a \<noteq> BigInt.isNegative b then
        BigInt_plus_v1 a (b\<lparr>BigInt.isNegative := \<not> BigInt.isNegative b\<rparr>)
      else
        let cmp_abs = (if BigInt.len a \<noteq> BigInt.len b
                       then (if BigInt.len a > BigInt.len b then 1 else - 1)
                       else BigInt_compare_digits (BigInt.digits a) (BigInt.digits b) (BigInt.len a));
            larger_abs = (if cmp_abs \<ge> 0 then a else b);
            smaller_abs = (if cmp_abs \<ge> 0 then b else a);
            sign = (if cmp_abs \<ge> 0 then BigInt.isNegative a else \<not> BigInt.isNegative a);
            cs = dec_sub_digits_v1 (take (BigInt.len larger_abs) (BigInt.digits larger_abs))
                   (take (BigInt.len smaller_abs) (BigInt.digits smaller_abs)) 0;
            ds = cs @ drop (length cs) (replicate MAX_DIGITS 0);
            n = BigInt_trim ds (BigInt.len larger_abs)
        in Inr \<lparr>BigInt.digits = ds, len = n,
                isNegative = (if n = 1 \<and> ds ! 0 = 0 then False else sign)\<rparr>)"
  by pat_completeness auto
termination
  by (relation "measure (\<lambda>x. case x of
          Inl (a, b) \<Rightarrow> (if BigInt.isNegative a \<noteq> BigInt.isNegative b then 1 else 0)
        | Inr (a, b) \<Rightarrow> (if BigInt.isNegative a \<noteq> BigInt.isNegative b then 1 else 0))") auto

section \<open>The numbers the values stand for\<close>

text \<open>
  The integer a value stands for: its \<open>len\<close> low digits, least significant first, with
  its sign. These functions are not in the source; the claims are stated with them.
\<close>

fun hex_digits_value :: "char list \<Rightarrow> int" where
  "hex_digits_value [] = 0"
| "hex_digits_value (c # cs) = convertHexDigitToInt c + 16 * hex_digits_value cs"

definition BigHexInt_value :: "BigHexInt \<Rightarrow> int" where
  "BigHexInt_value a =
     (if isNegative a then - hex_digits_value (take (len a) (digits a))
      else hex_digits_value (take (len a) (digits a)))"

fun dec_digits_value :: "int list \<Rightarrow> int" where
  "dec_digits_value [] = 0"
| "dec_digits_value (d # ds) = d + 10 * dec_digits_value ds"

definition BigInt_value :: "BigInt \<Rightarrow> int" where
  "BigInt_value a =
     (if BigInt.isNegative a then - dec_digits_value (take (BigInt.len a) (BigInt.digits a))
      else dec_digits_value (take (BigInt.len a) (BigInt.digits a)))"

text \<open>
  The specification's invariant "every stored digit value is in \<open>[0, radix)\<close>", for the
  \<open>len\<close> low cells of a hexadecimal value.
\<close>

definition hex_digits_ok :: "BigHexInt \<Rightarrow> bool" where
  "hex_digits_ok a = list_all isHexChar (take (len a) (digits a))"

text \<open>
  The values BigIntv1.cpp works with: an array of \<open>HEX_SIZE\<close> cells, at least one digit,
  hexadecimal digits in the \<open>length\<close> low cells, and no leading zero on a value of more
  than one digit. \<^verbatim>\<open>createFromString\<close> and the arithmetic operators trim to this form.
\<close>

definition hex_canonical_v1 :: "BigHexInt \<Rightarrow> bool" where
  "hex_canonical_v1 n =
     (length (digits n) = HEX_SIZE_v1 \<and> 1 \<le> len n \<and> len n \<le> HEX_SIZE_v1 \<and> hex_digits_ok n \<and>
      (len n = 1 \<or> digits n ! (len n - 1) \<noteq> CHR ''0''))"

section \<open>Facts about digits\<close>

lemma char_le_iff: "c \<le> d \<longleftrightarrow> (of_char c :: nat) \<le> of_char d"
  by (simp add: less_eq_char_def)

lemma of_char_lits:
  "(of_char (CHR ''0'') :: nat) = 48" "(of_char (CHR ''9'') :: nat) = 57"
  "(of_char (CHR ''a'') :: nat) = 97" "(of_char (CHR ''f'') :: nat) = 102"
  "(of_char (CHR ''A'') :: nat) = 65" "(of_char (CHR ''F'') :: nat) = 70"
  "(of_char (CHR ''1'') :: nat) = 49"
  by simp_all

lemma isHexChar_code:
  "isHexChar c \<longleftrightarrow> (48 \<le> (of_char c :: nat) \<and> (of_char c :: nat) \<le> 57) \<or>
     (97 \<le> (of_char c :: nat) \<and> (of_char c :: nat) \<le> 102) \<or>
     (65 \<le> (of_char c :: nat) \<and> (of_char c :: nat) \<le> 70)"
  unfolding isHexChar_def char_le_iff of_char_lits by simp

lemma convertHexDigitToInt_code:
  "convertHexDigitToInt c =
     (if 48 \<le> (of_char c :: nat) \<and> (of_char c :: nat) \<le> 57 then int (of_char c) - 48
      else if 97 \<le> (of_char c :: nat) \<and> (of_char c :: nat) \<le> 102 then int (of_char c) - 97 + 10
      else if 65 \<le> (of_char c :: nat) \<and> (of_char c :: nat) \<le> 70 then int (of_char c) - 65 + 10
      else - 1)"
  unfolding convertHexDigitToInt_def char_le_iff of_char_lits by simp

lemma hex_digit_range: "isHexChar c \<Longrightarrow> 0 \<le> convertHexDigitToInt c \<and> convertHexDigitToInt c \<le> 15"
  unfolding isHexChar_code convertHexDigitToInt_code by auto

lemma char_eq_iff_code: "c = d \<longleftrightarrow> (of_char c :: nat) = of_char d"
  by simp

lemma hex_digit_zero_iff: "isHexChar c \<Longrightarrow> convertHexDigitToInt c = 0 \<longleftrightarrow> c = CHR ''0''"
  unfolding isHexChar_code convertHexDigitToInt_code char_eq_iff_code[of c] of_char_lits by auto

lemma hex_digit_one_iff: "isHexChar c \<Longrightarrow> convertHexDigitToInt c = 1 \<longleftrightarrow> c = CHR ''1''"
  unfolding isHexChar_code convertHexDigitToInt_code char_eq_iff_code[of c] of_char_lits by auto

lemma convertIntToHexChar_v1_ok: "0 \<le> k \<Longrightarrow> k \<le> 15 \<Longrightarrow> \<exists>c. convertIntToHexChar_v1 k = Inr c"
  by (auto simp: convertIntToHexChar_v1_def)

lemma hex_digits_value_nonneg: "list_all isHexChar cs \<Longrightarrow> 0 \<le> hex_digits_value cs"
  by (induction cs) (auto dest: hex_digit_range)

lemma hex_digits_value_zero_iff:
  "list_all isHexChar cs \<Longrightarrow> hex_digits_value cs = 0 \<longleftrightarrow> list_all (\<lambda>c. c = CHR ''0'') cs"
proof (induction cs)
  case Nil
  then show ?case by simp
next
  case (Cons c cs)
  then have c: "isHexChar c" and cs: "list_all isHexChar cs" by simp_all
  have "convertHexDigitToInt c + 16 * hex_digits_value cs = 0 \<longleftrightarrow>
        convertHexDigitToInt c = 0 \<and> hex_digits_value cs = 0"
    using hex_digit_range[OF c] hex_digits_value_nonneg[OF cs] by arith
  with Cons.IH[OF cs] hex_digit_zero_iff[OF c] show ?case by simp
qed

lemma hex_digits_value_one_iff:
  "list_all isHexChar cs \<Longrightarrow>
   hex_digits_value cs = 1 \<longleftrightarrow> (\<exists>ds. cs = CHR ''1'' # ds \<and> list_all (\<lambda>c. c = CHR ''0'') ds)"
proof (cases cs)
  case Nil
  then show ?thesis by simp
next
  case (Cons c ds)
  assume "list_all isHexChar cs"
  with Cons have c: "isHexChar c" and ds: "list_all isHexChar ds" by simp_all
  have "convertHexDigitToInt c + 16 * hex_digits_value ds = 1 \<longleftrightarrow>
        convertHexDigitToInt c = 1 \<and> hex_digits_value ds = 0"
    using hex_digit_range[OF c] hex_digits_value_nonneg[OF ds] by arith
  with Cons hex_digits_value_zero_iff[OF ds] hex_digit_one_iff[OF c] show ?thesis by simp
qed

subsection \<open>Subtraction of operands of equal sign\<close>

lemma BigInt_trim_le: "BigInt_trim ds n \<le> n"
  by (induction n) auto

lemma hex_trim_le: "hex_trim ds n \<le> n"
  by (induction n) auto

lemma BigInt_minus_same_sign_direct:
  assumes "BigInt.isNegative a = BigInt.isNegative b" "\<not> BigInt_compare a b < 0"
  shows "\<exists>r. BigInt_minus a b = Inr r \<and> BigInt.len r \<le> BigInt.len a"
  using assms by (simp add: Let_def BigInt_trim_le)

lemma BigInt_minus_same_sign:
  assumes "BigInt.isNegative a = BigInt.isNegative b"
  shows "\<exists>r. BigInt_minus a b = Inr r \<and> BigInt.len r \<le> max (BigInt.len a) (BigInt.len b)"
proof (cases "BigInt_compare a b < 0")
  case False
  with BigInt_minus_same_sign_direct[OF assms] show ?thesis by fastforce
next
  case True
  then have "\<not> BigInt_compare b a < 0" by (rule BigInt_compare_swap)
  with assms BigInt_minus_same_sign_direct[of b a]
  obtain r where r: "BigInt_minus b a = Inr r" "BigInt.len r \<le> BigInt.len b" by auto
  have "BigInt_minus a b = Inr (r\<lparr>BigInt.isNegative := \<not> BigInt.isNegative a\<rparr>)"
    using assms True r(1) by (subst BigInt_minus.simps) simp
  with r(2) show ?thesis by simp
qed

lemma hex_sub_digits_v1_ok:
  "list_all isHexChar xs \<Longrightarrow> list_all isHexChar ys \<Longrightarrow> borrow = 0 \<or> borrow = 1 \<Longrightarrow>
   \<exists>cs. hex_sub_digits_v1 xs ys borrow = Inr cs \<and> length cs = length xs"
proof (induction xs arbitrary: ys borrow)
  case Nil
  then show ?case by simp
next
  case (Cons x xs)
  define digitS where "digitS = (case ys of [] \<Rightarrow> 0 | y # ys' \<Rightarrow> convertHexDigitToInt y)"
  define diff where "diff = convertHexDigitToInt x - digitS - borrow"
  have x: "0 \<le> convertHexDigitToInt x \<and> convertHexDigitToInt x \<le> 15"
    using Cons.prems(1) by (simp add: hex_digit_range)
  have s: "0 \<le> digitS \<and> digitS \<le> 15"
    using Cons.prems(2) by (cases ys) (auto simp: digitS_def hex_digit_range)
  have "0 \<le> (if diff < 0 then diff + 16 else diff) \<and> (if diff < 0 then diff + 16 else diff) \<le> 15"
    using x s Cons.prems(3) by (auto simp: diff_def)
  then obtain c where c: "convertIntToHexChar_v1 (if diff < 0 then diff + 16 else diff) = Inr c"
    using convertIntToHexChar_v1_ok by blast
  have tl: "list_all isHexChar (tl ys)"
    using Cons.prems(2) by (cases ys) auto
  have xs: "list_all isHexChar xs" using Cons.prems(1) by simp
  have b: "(if diff < 0 then 1 else 0) = (0::int) \<or> (if diff < 0 then 1 else 0) = (1::int)" by simp
  from Cons.IH[OF xs tl b]
  obtain cs where cs: "hex_sub_digits_v1 xs (tl ys) (if diff < 0 then 1 else 0) = Inr cs"
    "length cs = length xs" by auto
  have eq: "hex_sub_digits_v1 (x # xs) ys borrow =
      (case convertIntToHexChar_v1 (if diff < 0 then diff + 16 else diff) of
         Inl e \<Rightarrow> Inl e
       | Inr c \<Rightarrow>
           (case hex_sub_digits_v1 xs (tl ys) (if diff < 0 then 1 else 0) of
              Inl e \<Rightarrow> Inl e
            | Inr cs \<Rightarrow> Inr (c # cs)))"
    unfolding diff_def digitS_def by (simp add: Let_def)
  show ?case unfolding eq c cs(1) by (simp add: cs(2))
qed

lemma BigHexInt_minus_v1_same_sign:
  assumes "isNegative x = isNegative y" "hex_digits_ok x" "hex_digits_ok y"
  shows "\<exists>r. BigHexInt_minus_v1 x y = Inr r \<and> len r \<le> max (len x) (len y)"
proof -
  define cmp_abs where "cmp_abs = (if len x \<noteq> len y then (if len x > len y then 1 else - 1)
                       else BigHexInt_compare_loop_v1 1 (digits x) (digits y) (len x))"
  define larger where "larger = (if cmp_abs \<ge> 0 then x else y)"
  define smaller where "smaller = (if cmp_abs \<ge> 0 then y else x)"
  have "list_all isHexChar (take (len larger) (digits larger))"
       "list_all isHexChar (take (len smaller) (digits smaller))"
    using assms(2,3) by (auto simp: larger_def smaller_def hex_digits_ok_def)
  from hex_sub_digits_v1_ok[OF this, of 0]
  obtain cs where cs: "hex_sub_digits_v1 (take (len larger) (digits larger))
                         (take (len smaller) (digits smaller)) 0 = Inr cs" by auto
  have "len larger \<le> max (len x) (len y)" by (simp add: larger_def)
  with hex_trim_le[of _ "len larger"] have "\<And>ds. hex_trim ds (len larger) \<le> max (len x) (len y)"
    using le_trans by blast
  then show ?thesis
    using assms(1) cs
    by (simp add: Let_def cmp_abs_def[symmetric] larger_def[symmetric] smaller_def[symmetric])
qed

subsection \<open>Canonical values of BigIntv1.cpp against one-digit constants\<close>

lemma literals_v1:
  "(case BigHexInt_of_string_v1 ''0'' of Inl e \<Rightarrow> False
    | Inr v \<Rightarrow> len v = 1 \<and> \<not> isNegative v \<and> digits v ! 0 = CHR ''0'')"
  "(case BigHexInt_of_string_v1 ''1'' of Inl e \<Rightarrow> False
    | Inr v \<Rightarrow> len v = 1 \<and> \<not> isNegative v \<and> digits v ! 0 = CHR ''1'')"
  "(case BigHexInt_of_string_v1 ''2'' of Inl e \<Rightarrow> False
    | Inr v \<Rightarrow> len v = 1 \<and> \<not> isNegative v \<and> digits v ! 0 = CHR ''2'')"
  "(case BigHexInt_of_string_v1 ''3'' of Inl e \<Rightarrow> False
    | Inr v \<Rightarrow> len v = 1 \<and> \<not> isNegative v \<and> digits v ! 0 = CHR ''3'')"
  by code_simp+

lemma literal_v1_ex:
  assumes "(case BigHexInt_of_string_v1 s of Inl e \<Rightarrow> False
    | Inr v \<Rightarrow> len v = 1 \<and> \<not> isNegative v \<and> digits v ! 0 = c)"
  obtains v where "BigHexInt_of_string_v1 s = Inr v" "len v = 1" "\<not> isNegative v" "digits v ! 0 = c"
  using assms by (cases "BigHexInt_of_string_v1 s") auto

lemma hex_digit_lits:
  "convertHexDigitToInt (CHR ''0'') = 0" "convertHexDigitToInt (CHR ''1'') = 1"
  "convertHexDigitToInt (CHR ''2'') = 2" "convertHexDigitToInt (CHR ''3'') = 3"
  by (simp_all add: convertHexDigitToInt_def)

lemma hex_digits_value_top:
  "list_all isHexChar cs \<Longrightarrow> cs \<noteq> [] \<Longrightarrow> last cs \<noteq> CHR ''0'' \<Longrightarrow>
   16 ^ (length cs - 1) \<le> hex_digits_value cs"
proof (induction cs)
  case Nil
  then show ?case by simp
next
  case (Cons c cs)
  then have c: "isHexChar c" and cs: "list_all isHexChar cs" by simp_all
  show ?case
  proof (cases "cs = []")
    case True
    with hex_digit_range[OF c] hex_digit_zero_iff[OF c] Cons.prems(3)
    have "1 \<le> convertHexDigitToInt c" by (cases "convertHexDigitToInt c = 0") auto
    with True show ?thesis by simp
  next
    case False
    with Cons have "16 ^ (length cs - 1) \<le> hex_digits_value cs" by simp
    then have "16 * 16 ^ (length cs - 1) \<le> 16 * hex_digits_value cs" by simp
    moreover have "(16::int) * 16 ^ (length cs - 1) = 16 ^ length cs"
      using False by (cases cs) simp_all
    ultimately show ?thesis using hex_digit_range[OF c] by simp
  qed
qed

lemma canonical_v1_cases:
  assumes "hex_canonical_v1 n"
  obtains (one_digit) "len n = 1" "hex_digits_value (take (len n) (digits n)) = convertHexDigitToInt (digits n ! 0)"
                      "0 \<le> convertHexDigitToInt (digits n ! 0)" "convertHexDigitToInt (digits n ! 0) \<le> 15"
        | (more_digits) "len n > 1" "16 \<le> hex_digits_value (take (len n) (digits n))"
proof (cases "len n = 1")
  case True
  from assms have l: "length (digits n) = HEX_SIZE_v1" and ok: "hex_digits_ok n"
    by (simp_all add: hex_canonical_v1_def)
  from l have t: "take 1 (digits n) = [digits n ! 0]"
    by (cases "digits n") (simp_all add: HEX_SIZE_v1_def)
  from ok True t have "isHexChar (digits n ! 0)" by (simp add: hex_digits_ok_def)
  from hex_digit_range[OF this] True t show ?thesis by (intro one_digit) simp_all
next
  case False
  with assms have g: "len n > 1" and top: "digits n ! (len n - 1) \<noteq> CHR ''0''"
    and l: "len n \<le> length (digits n)" and ok: "hex_digits_ok n"
    by (auto simp: hex_canonical_v1_def)
  let ?cs = "take (len n) (digits n)"
  have len: "length ?cs = len n" using l by simp
  then have ne: "?cs \<noteq> []" using g by auto
  have "last ?cs = ?cs ! (len n - 1)" using ne len by (simp add: last_conv_nth)
  also have "\<dots> = digits n ! (len n - 1)" using g by simp
  finally have "last ?cs \<noteq> CHR ''0''" using top by simp
  have "list_all isHexChar ?cs" using ok by (simp add: hex_digits_ok_def)
  from hex_digits_value_top[OF this ne \<open>last ?cs \<noteq> CHR ''0''\<close>]
  have "16 ^ (len n - 1) \<le> hex_digits_value ?cs" unfolding len .
  moreover have "(16::int) ^ 1 \<le> 16 ^ (len n - 1)" using g by (intro power_increasing) auto
  ultimately show ?thesis using g by (intro more_digits) simp_all
qed


lemma compare_v1_literal:
  assumes "hex_canonical_v1 n" "len v = 1" "\<not> isNegative v"
  shows "BigHexInt_compare_v1 n v =
     (if isNegative n then - 1 else if len n > 1 then 1
      else if convertHexDigitToInt (digits n ! 0) > convertHexDigitToInt (digits v ! 0) then 1
      else if convertHexDigitToInt (digits n ! 0) < convertHexDigitToInt (digits v ! 0) then - 1
      else 0)"
proof -
  from assms(1) have "1 \<le> len n" by (simp add: hex_canonical_v1_def)
  then have "len n = 1 \<or> len n > 1" by arith
  then show ?thesis using assms(2,3)
    by (auto simp: BigHexInt_compare_v1_def Let_def)
qed

subsection \<open>The tests \<open>isZero\<close> and \<open>isOne\<close> of the modular file\<close>

lemma BigHexInt_isZero_iff:
  "hex_digits_ok a \<Longrightarrow> BigHexInt_isZero a \<longleftrightarrow> BigHexInt_value a = 0"
  by (simp add: BigHexInt_isZero_def BigHexInt_value_def hex_digits_ok_def hex_digits_value_zero_iff)

lemma BigHexInt_isOne_iff:
  assumes "hex_digits_ok a" "digits a \<noteq> []"
  shows "BigHexInt_isOne a \<longleftrightarrow> \<bar>BigHexInt_value a\<bar> = 1"
proof -
  let ?cs = "take (len a) (digits a)"
  from assms(1) have ok: "list_all isHexChar ?cs" by (simp add: hex_digits_ok_def)
  from hex_digits_value_nonneg[OF ok]
  have v: "\<bar>BigHexInt_value a\<bar> = 1 \<longleftrightarrow> hex_digits_value ?cs = 1"
    by (simp add: BigHexInt_value_def)
  from assms(2) obtain d ds where ds: "digits a = d # ds" by (cases "digits a") auto
  show ?thesis
  proof (cases "len a")
    case 0
    then show ?thesis unfolding v by (simp add: BigHexInt_isOne_def)
  next
    case (Suc k)
    then show ?thesis unfolding v hex_digits_value_one_iff[OF ok]
      by (auto simp: BigHexInt_isOne_def ds)
  qed
qed

lemma literals_mod:
  "(case BigHexInt_createFromString ''0'' of Inl e \<Rightarrow> False
    | Inr v \<Rightarrow> BigHexInt_value v = 0)"
  "(case BigHexInt_createFromString ''1'' of Inl e \<Rightarrow> False
    | Inr v \<Rightarrow> BigHexInt_value v = 1)"
  by code_simp+

lemma literal_mod_ex:
  assumes "(case BigHexInt_createFromString s of Inl e \<Rightarrow> False | Inr v \<Rightarrow> BigHexInt_value v = k)"
  obtains v where "BigHexInt_createFromString s = Inr v" "BigHexInt_value v = k"
  using assms by (cases "BigHexInt_createFromString s") auto

subsection \<open>What the constructors return\<close>

lemma skip_leading_zeros_all: "list_all P cs \<Longrightarrow> list_all P (skip_leading_zeros cs)"
  by (induction cs rule: skip_leading_zeros.induct) auto

lemma skip_leading_zeros_nonempty: "cs \<noteq> [] \<Longrightarrow> skip_leading_zeros cs \<noteq> []"
  by (induction cs rule: skip_leading_zeros.induct) auto

lemma skip_leading_zeros_head:
  "cs \<noteq> [] \<Longrightarrow> length (skip_leading_zeros cs) = 1 \<or> hd (skip_leading_zeros cs) \<noteq> CHR ''0''"
  by (induction cs rule: skip_leading_zeros.induct) auto

lemma BigHexInt_of_string_v1_canonical:
  assumes "BigHexInt_of_string_v1 str = Inr n"
  shows "hex_canonical_v1 n"
proof -
  define start :: nat where "start = (if str ! 0 = CHR ''-'' then 1 else 0)"
  define body where "body = skip_leading_zeros (drop start str)"
  from assms have valid: "BigHexInt_isValidInput_v1 str"
    by (auto simp: BigHexInt_of_string_v1_def BigHexInt_createFromString_v1_def split: if_splits)
  then have ne: "drop start str \<noteq> []" and hex: "list_all isHexChar (drop start str)"
    by (cases str; auto simp: BigHexInt_isValidInput_v1_def start_def Let_def split: if_splits)+
  from skip_leading_zeros_nonempty[OF ne] have b1: "body \<noteq> []" by (simp add: body_def)
  from skip_leading_zeros_all[OF hex] have b2: "list_all isHexChar body" by (simp add: body_def)
  from skip_leading_zeros_head[OF ne] have b3: "length body = 1 \<or> hd body \<noteq> CHR ''0''"
    by (simp add: body_def)
  from assms valid have b4: "length body \<le> HEX_SIZE_v1"
    by (auto simp: BigHexInt_of_string_v1_def BigHexInt_createFromString_v1_def Let_def
        body_def start_def split: if_splits)
  have top: "rev body ! (length body - 1) = hd body"
    using b1 by (simp add: rev_nth hd_conv_nth)
  have z: "isHexChar (CHR ''0'')" by (simp add: isHexChar_def)
  from assms valid b4 have
    "n = BigHexInt_assign_v1 \<lparr>digits = replicate HEX_SIZE_v1 (CHR ''0''), len = 1, isNegative = False\<rparr> \<or>
     n = BigHexInt_assign_v1 \<lparr>digits = rev body @ replicate (HEX_SIZE_v1 - length body) (CHR ''0''),
           len = length body, isNegative = (str ! 0 = CHR ''-'')\<rparr>"
    by (auto simp: BigHexInt_of_string_v1_def BigHexInt_createFromString_v1_def Let_def
        body_def start_def split: if_splits)
  then show ?thesis
  proof
    assume "n = BigHexInt_assign_v1 \<lparr>digits = replicate HEX_SIZE_v1 (CHR ''0''), len = 1, isNegative = False\<rparr>"
    then show ?thesis
      by (simp add: hex_canonical_v1_def hex_digits_ok_def BigHexInt_assign_v1_def HEX_SIZE_v1_def z)
  next
    assume "n = BigHexInt_assign_v1 \<lparr>digits = rev body @ replicate (HEX_SIZE_v1 - length body) (CHR ''0''),
           len = length body, isNegative = (str ! 0 = CHR ''-'')\<rparr>"
    then have n: "digits n = rev body @ replicate (HEX_SIZE_v1 - length body) (CHR ''0'')"
      "len n = length body"
      by (simp_all add: BigHexInt_assign_v1_def)
    from b1 have pos: "0 < length body" by simp
    have "digits n ! (len n - 1) = hd body"
      unfolding n using pos top by (simp add: nth_append)
    with b3 have "len n = 1 \<or> digits n ! (len n - 1) \<noteq> CHR ''0''" by (simp add: n(2))
    moreover have "length (digits n) = HEX_SIZE_v1" using b4 by (simp add: n)
    moreover have "hex_digits_ok n" using b2 by (simp add: hex_digits_ok_def n)
    moreover have "1 \<le> len n" using b1 by (cases body) (simp_all add: n)
    ultimately show ?thesis using b4 by (simp add: hex_canonical_v1_def n(2))
  qed
qed

lemma BigHexInt_createFromString_ok:
  assumes "BigHexInt_createFromString str = Inr a"
  shows "hex_digits_ok a \<and> length (digits a) = MAX_HEX_RESULT_SIZE"
proof -
  define start :: nat where "start = (if str ! 0 = CHR ''-'' then 1 else 0)"
  define ds where "ds = rev (drop start str) @
      replicate (MAX_HEX_RESULT_SIZE - (length str - start)) (CHR ''0'')"
  from assms have valid: "BigHexInt_isValidInput str"
    by (auto simp: BigHexInt_createFromString_def split: if_splits)
  then have hex: "list_all isHexChar (drop start str)"
    by (auto simp: BigHexInt_isValidInput_def start_def Let_def split: if_splits)
  from assms valid have fits: "length str - start \<le> HEX_SIZE" and a: "digits a = ds"
    by (auto simp: BigHexInt_createFromString_def Let_def start_def ds_def split: if_splits)
  have z: "isHexChar (CHR ''0'')" by (simp add: isHexChar_def)
  have "list_all isHexChar ds" using hex z by (auto simp: ds_def list_all_iff)
  then have "list_all isHexChar (take (len a) ds)"
    by (auto simp: list_all_iff dest: in_set_takeD)
  moreover have "length ds = MAX_HEX_RESULT_SIZE"
    using fits by (simp add: ds_def HEX_SIZE_def MAX_HEX_RESULT_SIZE_def)
  ultimately show ?thesis by (simp add: hex_digits_ok_def a)
qed

subsection \<open>The tests that open \<open>modPow\<close> in the modular file\<close>

text \<open>
  The tests come in the order zero modulus, modulus one, zero exponent, zero base,
  negative exponent, and the first that applies decides. The test for a zero base does
  not read the exponent, so a zero base with a negative exponent gives zero and the
  exception for a negative exponent is left to the nonzero bases. The cache is handed
  back as it was.
\<close>

lemma BigHexInt_modPow_tests:
  assumes a: "hex_digits_ok a" and e: "hex_digits_ok exponent" and m: "hex_digits_ok modulus"
    and l: "length (digits modulus) = MAX_HEX_RESULT_SIZE"
  shows "(BigHexInt_value modulus = 0 \<longrightarrow>
            BigHexInt_modPow memo a exponent modulus =
              Some (Inl (invalid_argument ''Modulus cannot be zero''), memo)) \<and>
         (\<bar>BigHexInt_value modulus\<bar> = 1 \<longrightarrow>
            (\<exists>z. BigHexInt_modPow memo a exponent modulus = Some (Inr z, memo) \<and>
                 BigHexInt_value z = 0)) \<and>
         (1 < \<bar>BigHexInt_value modulus\<bar> \<and> BigHexInt_value exponent = 0 \<longrightarrow>
            (\<exists>r. BigHexInt_modPow memo a exponent modulus = Some (Inr r, memo) \<and>
                 BigHexInt_value r = 1)) \<and>
         (1 < \<bar>BigHexInt_value modulus\<bar> \<and> BigHexInt_value exponent \<noteq> 0 \<and>
          BigHexInt_value a = 0 \<longrightarrow>
            (\<exists>z. BigHexInt_modPow memo a exponent modulus = Some (Inr z, memo) \<and>
                 BigHexInt_value z = 0)) \<and>
         (1 < \<bar>BigHexInt_value modulus\<bar> \<and> BigHexInt_value exponent < 0 \<and>
          BigHexInt_value a \<noteq> 0 \<longrightarrow>
            BigHexInt_modPow memo a exponent modulus =
              Some (Inl (invalid_argument
                ''Negative exponents not supported in modular exponentiation''), memo))"
proof -
  obtain zero where zero: "BigHexInt_createFromString ''0'' = Inr zero" "BigHexInt_value zero = 0"
    by (rule literal_mod_ex[OF literals_mod(1)])
  obtain one where one: "BigHexInt_createFromString ''1'' = Inr one" "BigHexInt_value one = 1"
    by (rule literal_mod_ex[OF literals_mod(2)])
  from l have ne: "digits modulus \<noteq> []" by (auto simp: MAX_HEX_RESULT_SIZE_def)
  note iff = BigHexInt_isZero_iff[OF m] BigHexInt_isOne_iff[OF m ne] BigHexInt_isZero_iff[OF e]
    BigHexInt_isZero_iff[OF a]
  have neg: "isNegative exponent" if "BigHexInt_value exponent < 0"
    using that hex_digits_value_nonneg[of "take (len exponent) (digits exponent)"] e
    by (cases "isNegative exponent") (simp_all add: BigHexInt_value_def hex_digits_ok_def)
  show ?thesis
    using neg by (auto simp: BigHexInt_modPow_def iff zero one)
qed

section \<open>The claims\<close>

text \<open>
  C1 (division identity). BigInt.cpp's \<^verbatim>\<open>divide\<close> is the unfinished routine: for
  \<open>0x100 / 0xf\<close> (the specification's own example, quotient \<open>11\<close> and remainder \<open>1\<close>)
  both \<^verbatim>\<open>operator/\<close> and \<^verbatim>\<open>operator%\<close> return 0, so that
  \<open>a = q * b + r\<close> fails. The modular file's long division returns \<open>11\<close> and \<open>1\<close> there.
\<close>

theorem C1_divide_cpp_breaks_identity:
  "(case (BigHexInt_createFromString ''100'', BigHexInt_createFromString ''f'') of
      (Inr a, Inr b) \<Rightarrow>
        (case (BigHexInt_div_cpp a b, BigHexInt_rem_cpp a b) of
           (Inr q, Inr r) \<Rightarrow>
             BigHexInt_toString q = ''0'' \<and> BigHexInt_toString r = ''0'' \<and>
             BigHexInt_value a = 256 \<and> BigHexInt_value b = 15 \<and>
             BigHexInt_value q * BigHexInt_value b + BigHexInt_value r \<noteq> BigHexInt_value a \<and>
             map_option (map_sum id BigHexInt_toString) (BigHexInt_div_mod a b) = Some (Inr ''11'') \<and>
             map_option (map_sum id BigHexInt_toString) (BigHexInt_rem_mod a b) = Some (Inr ''1'')
         | _ \<Rightarrow> False)
    | _ \<Rightarrow> False)"
  by code_simp

text \<open>
  C2 (Karatsuba agrees with the naive routine). For \<open>a = 16^33\<close> (34 digits) the product
  \<open>a * a = 16^66\<close> has 67 digits: \<^verbatim>\<open>multiplyNaive\<close> returns it, while
  \<^verbatim>\<open>operator*\<close> of BigInt.cpp, which selects \<^verbatim>\<open>karatsuba\<close> for these lengths, ends
  with the overflow exception of \<^verbatim>\<open>shiftLeftInPlace\<close>.
\<close>

theorem C2_karatsuba_overflows_where_naive_returns:
  "(case BigHexInt_createFromString (CHR ''1'' # replicate 33 (CHR ''0'')) of
      Inr a \<Rightarrow>
        map_option fst (BigHexInt_times_cpp Map.empty a a) =
          Some (Inl (OverflowException ''shift left operation'')) \<and>
        map_sum id BigHexInt_toString (BigHexInt_multiplyNaive a a) =
          Inr (CHR ''1'' # replicate 66 (CHR ''0''))
    | Inl e \<Rightarrow> False)"
  by code_simp

text \<open>
  C3 (the case ladder of \<^verbatim>\<open>modPow\<close>). The claim has every negative exponent end in an
  exception, and zero returned for a zero base only when the exponent is positive. In the
  modular file the test for a zero base (commented \<^verbatim>\<open>0^n is 0 for n > 0\<close>) stands before
  the test for a negative exponent and does not read the exponent: \<open>0 ^ (-1) mod 5\<close> is
  answered with 0, while \<open>3 ^ (-1) mod 5\<close> throws. \<^verbatim>\<open>modPower\<close> of BigIntv1.cpp has no
  test for a negative exponent: it answers \<open>3 ^ (-1) mod 5\<close> with 1.
\<close>

theorem C3_modPow_zero_base_negative_exponent:
  "(case (BigHexInt_createFromString ''0'', BigHexInt_createFromString ''3'',
          BigHexInt_createFromString ''-1'', BigHexInt_createFromString ''5'') of
      (Inr z, Inr a, Inr e, Inr m) \<Rightarrow>
         BigHexInt_value z = 0 \<and> BigHexInt_value a = 3 \<and> BigHexInt_value e = - 1 \<and>
         BigHexInt_value m = 5 \<and>
         map_option (map_sum id BigHexInt_toString \<circ> fst) (BigHexInt_modPow Map.empty z e m)
           = Some (Inr ''0'') \<and>
         map_option fst (BigHexInt_modPow Map.empty a e m)
           = Some (Inl (invalid_argument
               ''Negative exponents not supported in modular exponentiation''))
    | _ \<Rightarrow> False) \<and>
   (case (BigHexInt_of_string_v1 ''3'', BigHexInt_of_string_v1 ''-1'',
          BigHexInt_of_string_v1 ''5'') of
      (Inr a, Inr e, Inr m) \<Rightarrow>
         BigHexInt_value a = 3 \<and> BigHexInt_value e = - 1 \<and> BigHexInt_value m = 5 \<and>
         map_option (map_sum id BigHexInt_toString_v1 \<circ> fst)
           (BigHexInt_modPower_v1 Map.empty a e m) = Some (Inr ''1'')
    | _ \<Rightarrow> False)"
  by code_simp

text \<open>
  C4 (round trip). \<^verbatim>\<open>BigInt::createFromString\<close> of BigInt.cpp keeps every character of
  the literal: \<open>007\<close> is printed as \<open>007\<close> and \<open>-0\<close> as \<open>-0\<close>, not as \<open>7\<close> and \<open>0\<close>.
  Both classes of BigIntv1.cpp print \<open>7\<close> and \<open>0\<close>.
\<close>

theorem C4_decimal_literal_not_canonical:
  "map_sum id BigInt_print (BigInt_createFromString ''007'') = Inr ''007'' \<and>
   map_sum id BigInt_print (BigInt_createFromString ''-0'') = Inr ''-0'' \<and>
   map_sum id BigInt_print_v1 (BigInt_createFromString_v1 ''007'') = Inr ''7'' \<and>
   map_sum id BigInt_print_v1 (BigInt_createFromString_v1 ''-0'') = Inr ''0'' \<and>
   map_sum id BigHexInt_toString_v1 (BigHexInt_of_string_v1 ''007'') = Inr ''7'' \<and>
   map_sum id BigHexInt_toString_v1 (BigHexInt_of_string_v1 ''-0'') = Inr ''0''"
  by code_simp

text \<open>
  C5 (compare). \<^verbatim>\<open>BigInt::compare\<close> of BigInt.cpp does not read the signs: it answers
  \<open>-5 > -3\<close> and \<open>3 < -5\<close>. Both \<^verbatim>\<open>compare\<close> functions of BigIntv1.cpp answer
  \<open>-5 < -3\<close> and \<open>3 > -5\<close>.
\<close>

theorem C5_decimal_compare_ignores_sign:
  "(case (BigInt_createFromString ''-5'', BigInt_createFromString ''-3'',
          BigInt_createFromString ''3'') of
      (Inr m5, Inr m3, Inr p3) \<Rightarrow>
        BigInt_value m5 = - 5 \<and> BigInt_value m3 = - 3 \<and> BigInt_value p3 = 3 \<and>
        BigInt_compare m5 m3 = 1 \<and> BigInt_compare p3 m5 = - 1 \<and>
        BigInt_compare_v1 m5 m3 = - 1 \<and> BigInt_compare_v1 p3 m5 = 1
    | _ \<Rightarrow> False) \<and>
   (case (BigHexInt_of_string_v1 ''-5'', BigHexInt_of_string_v1 ''-3'',
          BigHexInt_of_string_v1 ''3'') of
      (Inr m5, Inr m3, Inr p3) \<Rightarrow>
        BigHexInt_value m5 = - 5 \<and> BigHexInt_value m3 = - 3 \<and> BigHexInt_value p3 = 3 \<and>
        BigHexInt_compare_v1 m5 m3 = - 1 \<and> BigHexInt_compare_v1 p3 m5 = 1
    | _ \<Rightarrow> False)"
  by code_simp

text \<open>
  C6 (the early cases of the Miller-Rabin test). For a canonical value \<open>n\<close>,
  \<^verbatim>\<open>millerRabinTest\<close> of BigIntv1.cpp answers false when \<open>n \<le> 1\<close>, true when \<open>n\<close> is 2
  or 3 and false when \<open>n > 2\<close> is even, for every iteration count, every cache and every
  state of the random generator, both of which it hands back untouched: no product is
  computed and no witness is drawn. Every value the constructor returns is canonical
  (\<open>BigHexInt_of_string_v1_canonical\<close>).
\<close>

theorem C6_millerRabin_early_cases:
  assumes n: "hex_canonical_v1 n"
  shows "(BigHexInt_value n \<le> 1 \<longrightarrow>
            BigHexInt_millerRabinTest memo g n k = Some (Inr False, memo, g)) \<and>
         (BigHexInt_value n = 2 \<or> BigHexInt_value n = 3 \<longrightarrow>
            BigHexInt_millerRabinTest memo g n k = Some (Inr True, memo, g)) \<and>
         (BigHexInt_value n > 2 \<and> even (BigHexInt_value n) \<longrightarrow>
            BigHexInt_millerRabinTest memo g n k = Some (Inr False, memo, g))"
proof -
  obtain zero where zero: "BigHexInt_of_string_v1 ''0'' = Inr zero"
    by (rule literal_v1_ex[OF literals_v1(1)])
  obtain one where one: "BigHexInt_of_string_v1 ''1'' = Inr one" "len one = 1"
      "\<not> isNegative one" "digits one ! 0 = CHR ''1''"
    by (rule literal_v1_ex[OF literals_v1(2)])
  obtain two where two: "BigHexInt_of_string_v1 ''2'' = Inr two" "len two = 1"
      "\<not> isNegative two" "digits two ! 0 = CHR ''2''"
    by (rule literal_v1_ex[OF literals_v1(3)])
  obtain three where three: "BigHexInt_of_string_v1 ''3'' = Inr three" "len three = 1"
      "\<not> isNegative three" "digits three ! 0 = CHR ''3''"
    by (rule literal_v1_ex[OF literals_v1(4)])
  define c1 where "c1 = BigHexInt_compare_v1 n one"
  define c2 where "c2 = BigHexInt_compare_v1 n two"
  define c3 where "c3 = BigHexInt_compare_v1 n three"
  define d0 where "d0 = convertHexDigitToInt (digits n ! 0)"
  define m where "m = hex_digits_value (take (len n) (digits n))"
  have mr: "BigHexInt_millerRabinTest memo g n k =
      (if c1 \<le> 0 then Some (Inr False, memo, g)
       else if c2 = 0 \<or> c3 = 0 then Some (Inr True, memo, g)
       else if d0 smod 2 = 0 then Some (Inr False, memo, g)
       else BigHexInt_millerRabinTest memo g n k)"
    by (simp add: BigHexInt_millerRabinTest_def zero one(1) two(1) three(1) c1_def c2_def c3_def
        d0_def BigHexInt_isEven_v1_def)
  have c1: "c1 = (if isNegative n then - 1 else if len n > 1 then 1
      else if d0 > 1 then 1 else if d0 < 1 then - 1 else 0)"
    unfolding c1_def d0_def using compare_v1_literal[OF n one(2,3)]
    by (simp add: one(4) hex_digit_lits)
  have c2: "c2 = (if isNegative n then - 1 else if len n > 1 then 1
      else if d0 > 2 then 1 else if d0 < 2 then - 1 else 0)"
    unfolding c2_def d0_def using compare_v1_literal[OF n two(2,3)]
    by (simp add: two(4) hex_digit_lits)
  have c3: "c3 = (if isNegative n then - 1 else if len n > 1 then 1
      else if d0 > 3 then 1 else if d0 < 3 then - 1 else 0)"
    unfolding c3_def d0_def using compare_v1_literal[OF n three(2,3)]
    by (simp add: three(4) hex_digit_lits)
  have v: "BigHexInt_value n = (if isNegative n then - m else m)"
    by (simp add: BigHexInt_value_def m_def Let_def)
  from n have ok: "list_all isHexChar (take (len n) (digits n))"
    by (simp add: hex_canonical_v1_def hex_digits_ok_def)
  have m0: "0 \<le> m" unfolding m_def by (rule hex_digits_value_nonneg[OF ok])
  from n obtain c cs where cs: "take (len n) (digits n) = c # cs"
    by (cases "take (len n) (digits n)") (auto simp: hex_canonical_v1_def HEX_SIZE_v1_def)
  then have "(take (len n) (digits n)) ! 0 = c" by simp
  moreover from n have "0 < len n" by (simp add: hex_canonical_v1_def)
  ultimately have c: "digits n ! 0 = c" by simp
  from ok cs have "isHexChar c" by simp
  from hex_digit_range[OF this] have "0 \<le> d0" by (simp add: d0_def c)
  then have "d0 smod 2 = d0 mod 2" by (simp add: smod_int_alt_def sgn_if)
  moreover have "m = d0 + 16 * hex_digits_value cs" by (simp add: m_def cs d0_def c)
  ultimately have ev: "even m \<longleftrightarrow> d0 smod 2 = 0" by presburger
  have facts: "(BigHexInt_value n \<le> 1 \<longrightarrow> c1 \<le> 0) \<and>
      (BigHexInt_value n = 2 \<or> BigHexInt_value n = 3 \<longrightarrow> 0 < c1 \<and> (c2 = 0 \<or> c3 = 0)) \<and>
      (BigHexInt_value n > 2 \<and> even (BigHexInt_value n) \<longrightarrow>
         0 < c1 \<and> c2 \<noteq> 0 \<and> c3 \<noteq> 0 \<and> d0 smod 2 = 0)"
    using n
  proof (cases rule: canonical_v1_cases)
    case one_digit
    then have md: "m = d0" and l: "len n = 1" by (simp_all add: m_def d0_def)
    show ?thesis
      using m0 ev by (cases "isNegative n") (auto simp: v c1 c2 c3 l md)
  next
    case more_digits
    then have m16: "16 \<le> m" and l: "len n > 1" by (simp_all add: m_def)
    show ?thesis
      using m16 ev l by (cases "isNegative n") (auto simp: v c1 c2 c3)
  qed
  have A: "BigHexInt_millerRabinTest memo g n k = Some (Inr False, memo, g)" if "c1 \<le> 0"
    using that by (subst mr) simp
  have B: "BigHexInt_millerRabinTest memo g n k = Some (Inr True, memo, g)"
    if "0 < c1" "c2 = 0 \<or> c3 = 0"
    using that by (subst mr) auto
  have C: "BigHexInt_millerRabinTest memo g n k = Some (Inr False, memo, g)"
    if "0 < c1" "c2 \<noteq> 0" "c3 \<noteq> 0" "d0 smod 2 = 0"
    using that by (subst mr) simp
  from facts A B C show ?thesis by blast
qed

theorem C6_millerRabin_early_cases_witness:
  "(let one = projr (BigHexInt_of_string_v1 ''1'');
        minus_seven = projr (BigHexInt_of_string_v1 ''-7'');
        three = projr (BigHexInt_of_string_v1 ''3'');
        big_even = projr (BigHexInt_of_string_v1 ''1f3a'');
        g = (\<lambda>i. 7, 0)
    in list_all hex_canonical_v1 [one, minus_seven, three, big_even] \<and>
       BigHexInt_value one \<le> 1 \<and> BigHexInt_value minus_seven \<le> 1 \<and>
       BigHexInt_value three = 3 \<and>
       BigHexInt_value big_even > 2 \<and> even (BigHexInt_value big_even) \<and>
       BigHexInt_millerRabinTest Map.empty g one 5 = Some (Inr False, Map.empty, g) \<and>
       BigHexInt_millerRabinTest Map.empty g minus_seven 5 = Some (Inr False, Map.empty, g) \<and>
       BigHexInt_millerRabinTest Map.empty g three 5 = Some (Inr True, Map.empty, g) \<and>
       BigHexInt_millerRabinTest Map.empty g big_even 5 = Some (Inr False, Map.empty, g))"
proof -
  define one where "one = projr (BigHexInt_of_string_v1 ''1'')"
  define minus_seven where "minus_seven = projr (BigHexInt_of_string_v1 ''-7'')"
  define three where "three = projr (BigHexInt_of_string_v1 ''3'')"
  define big_even where "big_even = projr (BigHexInt_of_string_v1 ''1f3a'')"
  define g :: gen_state where "g = (\<lambda>i. 7, 0)"
  have ok: "hex_canonical_v1 one" "hex_canonical_v1 minus_seven" "hex_canonical_v1 three"
    "hex_canonical_v1 big_even"
    unfolding one_def minus_seven_def three_def big_even_def by code_simp+
  have vals: "BigHexInt_value one \<le> 1" "BigHexInt_value minus_seven \<le> 1"
    "BigHexInt_value three = 3" "BigHexInt_value big_even > 2" "even (BigHexInt_value big_even)"
    unfolding one_def minus_seven_def three_def big_even_def by code_simp+
  have r1: "BigHexInt_millerRabinTest Map.empty g one 5 = Some (Inr False, Map.empty, g)"
    using C6_millerRabin_early_cases[OF ok(1), of Map.empty g 5] vals by simp
  have r2: "BigHexInt_millerRabinTest Map.empty g minus_seven 5 = Some (Inr False, Map.empty, g)"
    using C6_millerRabin_early_cases[OF ok(2), of Map.empty g 5] vals by simp
  have r3: "BigHexInt_millerRabinTest Map.empty g three 5 = Some (Inr True, Map.empty, g)"
    using C6_millerRabin_early_cases[OF ok(3), of Map.empty g 5] vals by simp
  have r4: "BigHexInt_millerRabinTest Map.empty g big_even 5 = Some (Inr False, Map.empty, g)"
    using C6_millerRabin_early_cases[OF ok(4), of Map.empty g 5] vals by simp
  show ?thesis
    unfolding Let_def one_def[symmetric] minus_seven_def[symmetric] three_def[symmetric]
      big_even_def[symmetric] g_def[symmetric]
    using ok vals r1 r2 r3 r4 by simp
qed

text \<open>
  C7 (no negative zero). \<^verbatim>\<open>BigInt::operator-\<close> of BigInt.cpp returns \<open>(-5) - (-5)\<close>
  with one digit 0 and the sign of the left operand: a negative zero, printed \<open>-0\<close>.
  \<^verbatim>\<open>BigInt::operator-\<close> of BigIntv1.cpp clears the sign of a zero result.
\<close>

theorem C7_decimal_subtraction_negative_zero:
  "(case BigInt_createFromString ''-5'' of
      Inr a \<Rightarrow>
        map_sum id (\<lambda>r. (BigInt_value r, BigInt.isNegative r, BigInt.len r, BigInt_print r))
          (BigInt_minus a a) = Inr (0, True, 1, ''-0'')
    | Inl e \<Rightarrow> False) \<and>
   (case BigInt_createFromString_v1 ''-5'' of
      Inr a \<Rightarrow>
        map_sum id (\<lambda>r. (BigInt_value r, BigInt.isNegative r, BigInt.len r, BigInt_print_v1 r))
          (BigInt_minus_v1 a a) = Inr (0, False, 1, ''0'')
    | Inl e \<Rightarrow> False)"
  by code_simp

text \<open>
  C8 (overflow of add). \<^verbatim>\<open>BigInt::operator+\<close> of BigInt.cpp throws as soon as the longer
  operand has \<open>MAX_DIGITS - 1 = 617\<close> digits: a 617-digit number plus 0 throws, although
  the sum has 617 digits and the array has 618 cells. \<^verbatim>\<open>BigHexInt::operator+\<close> of
  BigIntv1.cpp throws only when a digit would be written behind the last cell: with its
  128 cells, \<open>16^128 - 1\<close> plus 0 is returned and \<open>16^128 - 1\<close> plus 1 throws.
\<close>

theorem C8_decimal_add_overflow_early:
  "(case (BigInt_createFromString (replicate 617 (CHR ''1'')), BigInt_createFromString ''0'') of
      (Inr a, Inr b) \<Rightarrow>
        BigInt.len a = 617 \<and> BigInt.len a \<le> MAX_DIGITS \<and> BigInt_value b = 0 \<and>
        BigInt_plus a b = Inl (OverflowException ''addition'')
    | _ \<Rightarrow> False) \<and>
   (case (BigHexInt_of_string_v1 (replicate 128 (CHR ''f'')), BigHexInt_of_string_v1 ''0'',
          BigHexInt_of_string_v1 ''1'') of
      (Inr a, Inr z, Inr b) \<Rightarrow>
        map_sum id BigHexInt_toString_v1 (BigHexInt_plus_v1 a z) = Inr (replicate 128 (CHR ''f'')) \<and>
        BigHexInt_plus_v1 a b = Inl (OverflowException ''hexadecimal addition'')
    | _ \<Rightarrow> False)"
  by code_simp

text \<open>
  C9 (the memoization cache is transparent). \<open>a = 16^64 - 1\<close> (64 digits) times \<open>0x10\<close>: the
  first call of \<^verbatim>\<open>operator*\<close> returns the 65-digit product and stores its text; the
  second call finds the text and \<^verbatim>\<open>createFromString\<close> refuses it, since it has more
  than \<open>HEX_SIZE\<close> digits.
\<close>

theorem C9_cache_hit_throws_after_success:
  "(case (BigHexInt_createFromString (replicate 64 (CHR ''f'')), BigHexInt_createFromString ''10'') of
      (Inr a, Inr b) \<Rightarrow>
        (case BigHexInt_times_cpp Map.empty a b of
           Some (Inr r, memo) \<Rightarrow>
             BigHexInt_toString r = replicate 64 (CHR ''f'') @ ''0'' \<and>
             map_option fst (BigHexInt_times_cpp memo a b) =
               Some (Inl (OverflowException ''BigHexInt creation - exceeds 64 isHex digits''))
         | _ \<Rightarrow> False)
    | _ \<Rightarrow> False)"
  by code_simp

text \<open>
  C10 (subtraction of operands of equal sign). With equal signs, \<^verbatim>\<open>BigInt::operator-\<close>
  of BigInt.cpp and \<^verbatim>\<open>BigHexInt::operator-\<close> of BigIntv1.cpp (on operands whose digits
  are hexadecimal digits) return a value, never an exception, and the length of the
  result is at most the larger of the two operands' lengths.
\<close>

theorem C10_subtract_same_sign_succeeds:
  assumes "BigInt.isNegative a = BigInt.isNegative b"
    and "isNegative x = isNegative y" and "hex_digits_ok x" and "hex_digits_ok y"
  shows "(\<exists>r. BigInt_minus a b = Inr r \<and> BigInt.len r \<le> max (BigInt.len a) (BigInt.len b)) \<and>
         (\<exists>r. BigHexInt_minus_v1 x y = Inr r \<and> len r \<le> max (len x) (len y))"
  using BigInt_minus_same_sign[OF assms(1)] BigHexInt_minus_v1_same_sign[OF assms(2-4)]
  by (rule conjI)

theorem C10_subtract_same_sign_succeeds_witness:
  "(let a = projr (BigInt_createFromString ''-500'');
        b = projr (BigInt_createFromString ''-72'');
        x = projr (BigHexInt_of_string_v1 ''1a'');
        y = projr (BigHexInt_of_string_v1 ''ff03'')
    in BigInt.isNegative a = BigInt.isNegative b \<and> isNegative x = isNegative y \<and>
       hex_digits_ok x \<and> hex_digits_ok y \<and>
       (\<exists>r. BigInt_minus a b = Inr r \<and> BigInt.len r \<le> max (BigInt.len a) (BigInt.len b)) \<and>
       (\<exists>r. BigHexInt_minus_v1 x y = Inr r \<and> len r \<le> max (len x) (len y)) \<and>
       map_sum id BigInt_print (BigInt_minus a b) = Inr ''-428'' \<and>
       map_sum id BigHexInt_toString_v1 (BigHexInt_minus_v1 x y) = Inr ''-fee9'')"
proof -
  define a where "a = projr (BigInt_createFromString ''-500'')"
  define b where "b = projr (BigInt_createFromString ''-72'')"
  define x where "x = projr (BigHexInt_of_string_v1 ''1a'')"
  define y where "y = projr (BigHexInt_of_string_v1 ''ff03'')"
  have h: "BigInt.isNegative a = BigInt.isNegative b" "isNegative x = isNegative y"
    "hex_digits_ok x" "hex_digits_ok y"
    unfolding a_def b_def x_def y_def by code_simp+
  have r: "map_sum id BigInt_print (BigInt_minus a b) = Inr ''-428''"
    "map_sum id BigHexInt_toString_v1 (BigHexInt_minus_v1 x y) = Inr ''-fee9''"
    unfolding a_def b_def x_def y_def by code_simp+
  show ?thesis
    unfolding Let_def a_def[symmetric] b_def[symmetric] x_def[symmetric] y_def[symmetric]
    using C10_subtract_same_sign_succeeds[OF h] h r by simp
qed

end
